theory Spec2Isabelle
  imports Main "HOL-Library.Sublist"
begin

section \<open>Go library functions used by \<^verbatim>\<open>cli/cmd/prepare_jvm.go\<close>\<close>

text \<open>
  \<^verbatim>\<open>strconv.Itoa\<close> renders an int in decimal, with a leading minus sign for a
  negative value. Go's \<^verbatim>\<open>int\<close> is taken as 64 bits wide; the command never does
  arithmetic on the port, so the value is an \<open>int\<close> here and only \<^verbatim>\<open>Atoi\<close>
  needs the bounds.
\<close>

fun utoa :: "nat \<Rightarrow> string" where
  "utoa n = (if n < 10 then [''0123456789'' ! n]
             else utoa (n div 10) @ [''0123456789'' ! (n mod 10)])"

declare utoa.simps [simp del]

definition Itoa :: "int \<Rightarrow> string" where
  "Itoa i = (if i < 0 then CHR ''-'' # utoa (nat (- i)) else utoa (nat i))"

text \<open>
  \<^verbatim>\<open>strconv.Atoi\<close>, as \<^verbatim>\<open>strconv/atoi.go\<close> has it for a 64-bit \<^verbatim>\<open>int\<close>. A string
  of 1 to 18 bytes takes the fast path: an optional sign, then digits only, and no
  overflow is possible. Every other string goes through \<^verbatim>\<open>ParseInt(s, 10, 0)\<close>, whose
  \<^verbatim>\<open>ParseUint\<close> reads the bytes from left to right and returns at the first byte that
  decides the result: a byte that is not a digit gives \<open>(0, ErrSyntax)\<close>, and a digit
  that takes the value past \<open>2^64 - 1\<close> gives \<open>(2^64 - 1, ErrRange)\<close> without reading
  on. \<^verbatim>\<open>ParseInt\<close> passes a syntax error on with the value 0 and clamps every other
  result to the signed range.
\<close>

datatype NumError = ErrSyntax | ErrRange

definition is_digit :: "char \<Rightarrow> bool" where
  "is_digit c = (48 \<le> (of_char c :: nat) \<and> (of_char c :: nat) \<le> 57)"

definition digit_val :: "char \<Rightarrow> nat" where
  "digit_val c = of_char c - 48"

definition maxUint64 :: nat where
  "maxUint64 = 18446744073709551615"

fun ParseUintLoop :: "string \<Rightarrow> nat \<Rightarrow> nat \<times> NumError option" where
  "ParseUintLoop [] n = (n, None)"
| "ParseUintLoop (c # cs) n =
     (if \<not> is_digit c then (0, Some ErrSyntax)
      else if n \<ge> maxUint64 div 10 + 1 then (maxUint64, Some ErrRange)
      else if n * 10 + digit_val c > maxUint64 then (maxUint64, Some ErrRange)
      else ParseUintLoop cs (n * 10 + digit_val c))"

definition ParseUint :: "string \<Rightarrow> nat \<times> NumError option" where
  "ParseUint s = (if s = [] then (0, Some ErrSyntax) else ParseUintLoop s 0)"

definition isNegative :: "string \<Rightarrow> bool" where
  "isNegative s = (case s of [] \<Rightarrow> False | c # _ \<Rightarrow> c = CHR ''-'')"

definition unsignedPart :: "string \<Rightarrow> string" where
  "unsignedPart s =
     (case s of [] \<Rightarrow> []
      | c # t \<Rightarrow> if c = CHR ''+'' \<or> c = CHR ''-'' then t else s)"

definition ParseInt :: "string \<Rightarrow> int \<times> NumError option" where
  "ParseInt s =
     (if s = [] then (0, Some ErrSyntax)
      else
        (case ParseUint (unsignedPart s) of
           (un, err) \<Rightarrow>
             if err = Some ErrSyntax then (0, Some ErrSyntax)
             else if \<not> isNegative s \<and> int un \<ge> 2 ^ 63 then (2 ^ 63 - 1, Some ErrRange)
             else if isNegative s \<and> int un > 2 ^ 63 then (- (2 ^ 63), Some ErrRange)
             else (if isNegative s then - int un else int un, None)))"

definition Atoi :: "string \<Rightarrow> int \<times> NumError option" where
  "Atoi s =
     (if 0 < length s \<and> length s < 19
      then
        (if unsignedPart s = [] then (0, Some ErrSyntax)
         else if \<not> list_all is_digit (unsignedPart s) then (0, Some ErrSyntax)
         else
           let n = int (foldl (\<lambda>a c. a * 10 + digit_val c) 0 (unsignedPart s))
           in (if isNegative s then - n else n, None))
      else ParseInt s)"

text \<open>A decimal integer as one writes it: an optional sign, then at least one digit.\<close>

definition decimalSyntax :: "string \<Rightarrow> bool" where
  "decimalSyntax s = (unsignedPart s \<noteq> [] \<and> list_all is_digit (unsignedPart s))"

text \<open>\<^verbatim>\<open>strings.Contains(s, substr)\<close>: \<open>substr\<close> occurs in \<open>s\<close> as a contiguous block.\<close>

fun Contains :: "string \<Rightarrow> string \<Rightarrow> bool" where
  "Contains [] substr = (substr = [])"
| "Contains (c # s) substr = (prefix substr (c # s) \<or> Contains s substr)"

section \<open>Data model\<close>

text \<open>
  \<^verbatim>\<open>spec.Response\<close> of chaosblade-spec-go, with the three codes this file passes to
  \<^verbatim>\<open>spec.ReturnFail\<close>; a response produced elsewhere may carry any other code.
\<close>

datatype CodeType = OK | IllegalParameters | DatabaseError | ServerError | OtherCode int

record Response =
  Code :: CodeType
  Success :: bool
  Err :: string
  Result :: string

definition ReturnFail :: "CodeType \<Rightarrow> string \<Rightarrow> Response" where
  "ReturnFail c e = \<lparr>Code = c, Success = False, Err = e, Result = ''''\<rparr>"

definition ReturnSuccess :: "string \<Rightarrow> Response" where
  "ReturnSuccess r = \<lparr>Code = OK, Success = True, Err = '''', Result = r\<rparr>"

text \<open>
  \<^verbatim>\<open>data.PreparationRecord\<close>: the fields of the record bean in the comment above
  \<^verbatim>\<open>createPostBody\<close>. The command reads \<open>Uid\<close>, \<open>Port\<close>, \<open>Pid\<close> and \<open>Status\<close>.
\<close>

record PreparationRecord =
  Uid :: string
  ProgramType :: string
  Process :: string
  Port :: string
  Pid :: string
  Status :: string
  Error :: string
  CreateTime :: string
  UpdateTime :: string

text \<open>\<^verbatim>\<open>PrepareJvmCommand\<close>: the flag values of one invocation of \<^verbatim>\<open>blade prepare jvm\<close>.\<close>

record PrepareJvmCommand =
  javaHome :: string
  processName :: string
  sandboxHome :: string
  port :: int
  processId :: string
  async :: bool
  uid :: string
  nohup :: bool
  endpoint :: string

section \<open>Effects\<close>

text \<open>
  Everything the command does besides computing its return value is a call of a
  collaborator: the data source, the attach client, the token file, the port allocator,
  the HTTP client, the logger, the command's output and the spawn of the re-invocation.
  Each call is appended to a trace, in program order. \<open>Println r\<close> stands for
  \<^verbatim>\<open>pc.command.Println(r.Print())\<close>; the arguments of a log call are kept next to
  its format string. \<open>Go args\<close> is the statement \<^verbatim>\<open>go pc.invokeAttaching(port, uid)\<close>,
  with the command line that goroutine hands to the \<^verbatim>\<open>blade\<close> program; \<open>Sleep\<close> carries
  the duration in nanoseconds.
\<close>

datatype logarg = S string | R Response | I int

datatype event =
    CallCheckFlagValues string string
  | CallQueryRunningPre string string string
  | CallGetUnusedPort
  | CallInsertPrepareRecord string string string string
  | Go string
  | Sleep nat
  | Println Response
  | CallAttach string string string
  | CallCheckPortFromSandboxToken string
  | CallUpdatePreparationPort string string
  | CallUpdatePreparationPid string string
  | CallHandlePrepareResponse string Response
  | CallQueryPreparationByUid string
  | CallPostCurl string string string
  | CallRun string
  | Infof string "logarg list"
  | Warningf string "logarg list"

type_synonym store = "PreparationRecord list"

record world =
  store :: store
  trace :: "event list"

definition emit :: "event \<Rightarrow> world \<Rightarrow> world" where
  "emit e w = w\<lparr>trace := trace w @ [e]\<rparr>"

datatype jvalue = JRecord "PreparationRecord option" | JString string

text \<open>
  The collaborators live outside \<^verbatim>\<open>prepare_jvm.go\<close>, so they are parameters: every
  result may depend on the whole world at the time of the call (the store and all
  earlier calls), and nothing is assumed about what they return. A Go result pair
  \<open>(value, err)\<close> that the caller reads only after testing \<open>err\<close> is a sum with the
  error message on the left. The four helpers that write to the data source
  (\<open>insertPrepareRecord\<close>, \<open>updatePreparationPid\<close>, \<open>updatePreparationPort\<close>,
  \<open>handlePrepareResponseWithoutExit\<close>) return the store they leave behind, also when
  they fail; the other collaborators read the world and do not write to the store.
  \<open>handlePrepareResponseWithoutExit\<close> receives the response by pointer, so it returns
  the response as it leaves it next to its error result. \<open>PrepareJvmType\<close> is the
  constant of that name.
\<close>

record env =
  PrepareJvmType :: string
  CheckFlagValues :: "world \<Rightarrow> string \<Rightarrow> string \<Rightarrow> string \<times> Response"
  QueryRunningPreByTypeAndProcess ::
    "world \<Rightarrow> string \<Rightarrow> string \<Rightarrow> string \<Rightarrow> string + PreparationRecord option"
  QueryPreparationByUid :: "world \<Rightarrow> string \<Rightarrow> string + PreparationRecord option"
  insertPrepareRecord ::
    "world \<Rightarrow> string \<Rightarrow> string \<Rightarrow> string \<Rightarrow> string \<Rightarrow> (string + PreparationRecord) \<times> store"
  updatePreparationPid :: "world \<Rightarrow> string \<Rightarrow> string \<Rightarrow> string option \<times> store"
  updatePreparationPort :: "world \<Rightarrow> string \<Rightarrow> string \<Rightarrow> string option \<times> store"
  handlePrepareResponseWithoutExit ::
    "world \<Rightarrow> string \<Rightarrow> Response \<Rightarrow> Response option \<times> Response \<times> store"
  Attach :: "world \<Rightarrow> string \<Rightarrow> string \<Rightarrow> string \<Rightarrow> Response \<times> string"
  CheckPortFromSandboxToken :: "world \<Rightarrow> string \<Rightarrow> string + string"
  GetUnusedPort :: "world \<Rightarrow> string + int"
  Marshal :: "(string \<rightharpoonup> jvalue) \<Rightarrow> string + string"
  PostCurl :: "world \<Rightarrow> string \<Rightarrow> string \<Rightarrow> string \<Rightarrow> string \<times> string option \<times> int"
  Run :: "world \<Rightarrow> string \<Rightarrow> Response"

text \<open>\<^verbatim>\<open>time.Second\<close>, in nanoseconds.\<close>

definition Second :: nat where
  "Second = 1000000000"

section \<open>The command\<close>

text \<open>\<^verbatim>\<open>getAndCacheSandboxPort\<close>\<close>

definition getAndCacheSandboxPort :: "env \<Rightarrow> world \<Rightarrow> (string + string) \<times> world" where
  "getAndCacheSandboxPort E w =
     (case GetUnusedPort E w of
        Inl err \<Rightarrow> (Inl err, emit CallGetUnusedPort w)
      | Inr p \<Rightarrow> (Inr (Itoa p), emit CallGetUnusedPort w))"

text \<open>
  \<^verbatim>\<open>invokeAttaching\<close>: the command line of the re-invocation, then the run of
  \<^verbatim>\<open>blade\<close> with it and the log line for its result.
\<close>

definition invokeAttachingArgs :: "PrepareJvmCommand \<Rightarrow> string \<Rightarrow> string \<Rightarrow> string" where
  "invokeAttachingArgs pc p u =
     (let args = ''prepare jvm --uid '' @ u @ '' --nohup'';
          args = (if p \<noteq> '''' then args @ '' --port '' @ p else args);
          args = (if processName pc \<noteq> '''' then args @ '' -p '' @ processName pc else args);
          args = (if javaHome pc \<noteq> '''' then args @ '' -j '' @ javaHome pc else args);
          args = (if processId pc \<noteq> '''' then args @ '' --pid '' @ processId pc else args);
          args = (if async pc then args @ '' --async'' else args);
          args = (if endpoint pc \<noteq> '''' then args @ '' --endpoint '' @ endpoint pc else args)
      in args)"

definition invokeAttaching :: "env \<Rightarrow> PrepareJvmCommand \<Rightarrow> string \<Rightarrow> string \<Rightarrow> world \<Rightarrow> world" where
  "invokeAttaching E pc p u w =
     (let args = invokeAttachingArgs pc p u;
          response = Run E w args;
          w1 = emit (CallRun args) w
      in if Success response
         then emit (Infof ''attach java agent success, uid: %s'' [S u]) w1
         else emit (Warningf ''attach java agent failed, err: %s, uid: %s''
                      [S (Err response), S u]) w1)"

text \<open>
  \<^verbatim>\<open>ManualPreparation\<close>, lines 169 to 193: the record to work with, an existing
  \<open>Running\<close> one or a new one.
\<close>

definition resolveRecord ::
  "env \<Rightarrow> PrepareJvmCommand \<Rightarrow> PreparationRecord option \<Rightarrow> world
    \<Rightarrow> (Response + PreparationRecord) \<times> world" where
  "resolveRecord E pc record w =
     (case (case record of None \<Rightarrow> None
            | Some r \<Rightarrow> if Status r \<noteq> ''Running'' then None else Some r) of
        None \<Rightarrow>
          (case (if port pc \<noteq> 0 then (Inr (Itoa (port pc)), w)
                 else getAndCacheSandboxPort E w) of
             (Inl err, w1) \<Rightarrow>
               (Inl (ReturnFail ServerError (''get sandbox port err, '' @ err)), w1)
           | (Inr p, w1) \<Rightarrow>
               (case insertPrepareRecord E w1 (PrepareJvmType E) (processName pc) p (processId pc) of
                  (Inl err, s) \<Rightarrow>
                    (Inl (ReturnFail DatabaseError (''insert prepare record err, '' @ err)),
                     emit (CallInsertPrepareRecord (PrepareJvmType E) (processName pc) p (processId pc))
                       (w1\<lparr>store := s\<rparr>))
                | (Inr r, s) \<Rightarrow>
                    (Inr r,
                     emit (CallInsertPrepareRecord (PrepareJvmType E) (processName pc) p (processId pc))
                       (w1\<lparr>store := s\<rparr>))))
      | Some r \<Rightarrow>
          if port pc \<noteq> 0 \<and> Itoa (port pc) \<noteq> Port r
          then (Inl (ReturnFail IllegalParameters
                  (''the process has been executed prepare command, if you wan't re-prepare, ''
                   @ ''please append or modify the --port '' @ Port r
                   @ '' argument in prepare command for retry'')), w)
          else (Inr r, w))"

text \<open>
  \<^verbatim>\<open>ManualPreparation\<close>: the result \<open>Inr None\<close> is the Go result \<open>(nil, nil)\<close>, which
  tells \<open>prepareJvm\<close> to stop.
\<close>

definition ManualPreparation ::
  "env \<Rightarrow> PrepareJvmCommand \<Rightarrow> PreparationRecord option \<Rightarrow> world
    \<Rightarrow> (Response + PreparationRecord option) \<times> world" where
  "ManualPreparation E pc record w =
     (case resolveRecord E pc record w of
        (Inl e, w1) \<Rightarrow> (Inl e, w1)
      | (Inr r, w1) \<Rightarrow>
          if async pc
          then (Inr None,
                emit (Println (ReturnSuccess (Uid r)))
                  (emit (Sleep Second)
                    (emit (Go (invokeAttachingArgs pc (Port r) (Uid r))) w1)))
          else (Inr (Some r), w1))"

text \<open>\<^verbatim>\<open>attachAgent\<close>\<close>

definition attachAgent :: "env \<Rightarrow> PrepareJvmCommand \<Rightarrow> world \<Rightarrow> Response \<times> world" where
  "attachAgent E pc w =
     (case Attach E w (Itoa (port pc)) (javaHome pc) (processId pc) of
        (response, username) \<Rightarrow>
          let w1 = emit (CallAttach (Itoa (port pc)) (javaHome pc) (processId pc)) w
          in if \<not> Success response \<and> username \<noteq> ''''
                \<and> Contains (Err response) ''connection refused''
             then
               (case CheckPortFromSandboxToken E w1 username of
                  Inl err \<Rightarrow> (response, emit (CallCheckPortFromSandboxToken username) w1)
                | Inr p \<Rightarrow>
                    let w2 = emit (Infof ''use %s port to retry'' [S p])
                               (emit (CallCheckPortFromSandboxToken username) w1)
                    in (case Attach E w2 p (javaHome pc) (processId pc) of
                          (response2, username2) \<Rightarrow>
                            let w3 = emit (CallAttach p (javaHome pc) (processId pc)) w2
                            in if Success response2
                               then
                                 (case updatePreparationPort E w3 (uid pc) p of
                                    (None, s) \<Rightarrow>
                                      (response2,
                                       emit (CallUpdatePreparationPort (uid pc) p)
                                         (w3\<lparr>store := s\<rparr>))
                                  | (Some err, s) \<Rightarrow>
                                      (response2,
                                       emit (Warningf ''update preparation port failed, %v'' [S err])
                                         (emit (CallUpdatePreparationPort (uid pc) p)
                                           (w3\<lparr>store := s\<rparr>))))
                               else (response2, w3)))
             else (response, w1))"

text \<open>\<^verbatim>\<open>createPostBody\<close>\<close>

definition createPostBody :: "env \<Rightarrow> string \<Rightarrow> world \<Rightarrow> (string + string) \<times> world" where
  "createPostBody E u w =
     (let w1 = emit (CallQueryPreparationByUid u) w
      in case QueryPreparationByUid E w u of
           Inl err \<Rightarrow> (Inl err, w1)
         | Inr preparationRecord \<Rightarrow>
             (case Marshal E [''data'' \<mapsto> JRecord preparationRecord,
                              ''type'' \<mapsto> JString ''JAVA_AGENT_PREPARE''] of
                Inl err \<Rightarrow>
                  (Inl err, emit (Warningf ''Marshal request body to json error. %v'' [S err]) w1)
              | Inr bytes \<Rightarrow> (Inr bytes, emit (Infof ''body: %s'' [S bytes]) w1)))"

text \<open>\<^verbatim>\<open>reportAttachedResult\<close>\<close>

definition reportAttachedResult ::
  "env \<Rightarrow> PrepareJvmCommand \<Rightarrow> Response \<Rightarrow> world \<Rightarrow> world" where
  "reportAttachedResult E pc response w =
     (let w1 = emit (Infof ''report response: %s to endpoint: %s'' [R response, S (endpoint pc)]) w
      in case createPostBody E (uid pc) w1 of
           (Inl err, w2) \<Rightarrow>
             emit (Warningf ''create java install post body %s failed, %v'' [R response, S err]) w2
         | (Inr body, w2) \<Rightarrow>
             (case PostCurl E w2 (endpoint pc) body ''application/json'' of
                (result, err, code) \<Rightarrow>
                  let w3 = emit (CallPostCurl (endpoint pc) body ''application/json'') w2
                  in (case err of
                        Some e \<Rightarrow>
                          emit (Warningf ''report java install result %s failed, %v''
                                  [R response, S e]) w3
                      | None \<Rightarrow>
                          if code \<noteq> 200
                          then emit (Warningf ''response code is %d, result %s'' [I code, S result]) w3
                          else emit (Infof ''report java install result success, result %s''
                                       [S result]) w3)))"

text \<open>
  \<^verbatim>\<open>prepareJvm\<close>, lines 107 to 112: the command takes the uid and the port of the
  record where the flags gave none. The error of \<^verbatim>\<open>strconv.Atoi\<close> is dropped.
\<close>

definition adoptRecord :: "PrepareJvmCommand \<Rightarrow> PreparationRecord option \<Rightarrow> PrepareJvmCommand" where
  "adoptRecord pc record =
     (let pc1 = (case record of None \<Rightarrow> pc
                 | Some r \<Rightarrow> if uid pc = '''' then pc\<lparr>uid := Uid r\<rparr> else pc);
          pc2 = (case record of None \<Rightarrow> pc1
                 | Some r \<Rightarrow> if port pc1 = 0 then pc1\<lparr>port := fst (Atoi (Port r))\<rparr> else pc1)
      in pc2)"

text \<open>
  \<^verbatim>\<open>prepareJvm\<close>, lines 114 to 117: the pid of the record is corrected; the result
  of \<^verbatim>\<open>updatePreparationPid\<close> is not read.
\<close>

definition correctPid ::
  "env \<Rightarrow> PrepareJvmCommand \<Rightarrow> PreparationRecord option \<Rightarrow> world \<Rightarrow> world" where
  "correctPid E pc record w =
     (case record of
        None \<Rightarrow> w
      | Some r \<Rightarrow>
          if Pid r \<noteq> processId pc
          then emit (CallUpdatePreparationPid (uid pc) (processId pc))
                 (w\<lparr>store := snd (updatePreparationPid E w (uid pc) (processId pc))\<rparr>)
          else w)"

text \<open>\<^verbatim>\<open>prepareJvm\<close>, lines 119 to 127: the response is recorded, reported and printed.\<close>

definition respond ::
  "env \<Rightarrow> PrepareJvmCommand \<Rightarrow> Response \<Rightarrow> world \<Rightarrow> Response option \<times> world" where
  "respond E pc response w =
     (case handlePrepareResponseWithoutExit E w (uid pc) response of
        (preErr, response', s) \<Rightarrow>
          let w1 = emit (CallHandlePrepareResponse (uid pc) response) (w\<lparr>store := s\<rparr>);
              w2 = (if async pc \<and> endpoint pc \<noteq> ''''
                    then reportAttachedResult E pc response' w1 else w1)
          in (case preErr of
                None \<Rightarrow> (None, emit (Println response') w2)
              | Some e \<Rightarrow> (Some e, w2)))"

text \<open>
  \<^verbatim>\<open>prepareJvm\<close>, lines 107 to 127: what follows the resolution of the record. The
  command is a pointer receiver whose \<open>uid\<close> and \<open>port\<close> are assigned here, so the
  command as it is left is part of the result.
\<close>

definition attachAndReport ::
  "env \<Rightarrow> PrepareJvmCommand \<Rightarrow> PreparationRecord option \<Rightarrow> world
    \<Rightarrow> Response option \<times> PrepareJvmCommand \<times> world" where
  "attachAndReport E pc record w =
     (let pc2 = adoptRecord pc record
      in case attachAgent E pc2 w of
           (response, w1) \<Rightarrow>
             (case respond E pc2 response (correctPid E pc2 record w1) of
                (preErr, w2) \<Rightarrow> (preErr, pc2, w2)))"

text \<open>
  \<^verbatim>\<open>prepareJvm\<close>: the error it returns (\<open>None\<close> is Go's \<open>nil\<close>), the command and the
  world as it leaves them.
\<close>

definition prepareJvm ::
  "env \<Rightarrow> PrepareJvmCommand \<Rightarrow> world \<Rightarrow> Response option \<times> PrepareJvmCommand \<times> world" where
  "prepareJvm E pc w =
     (if processName pc = '''' \<and> processId pc = ''''
      then (Some (ReturnFail IllegalParameters ''less --process or --pid flags''), pc, w)
      else
        (case CheckFlagValues E w (processName pc) (processId pc) of
           (pid, response) \<Rightarrow>
             let w1 = emit (CallCheckFlagValues (processName pc) (processId pc)) w
             in if \<not> Success response then (Some response, pc, w1)
                else
                  let pc1 = pc\<lparr>processId := pid\<rparr>;
                      w2 = emit (CallQueryRunningPre (PrepareJvmType E) (processName pc1) (processId pc1)) w1
                  in (case QueryRunningPreByTypeAndProcess E w1 (PrepareJvmType E)
                             (processName pc1) (processId pc1) of
                        Inl err \<Rightarrow>
                          (Some (ReturnFail DatabaseError
                                   (''query attach java process record err, '' @ err)), pc1, w2)
                      | Inr record \<Rightarrow>
                          if \<not> nohup pc1
                          then
                            (case ManualPreparation E pc1 record w2 of
                               (Inl e, w3) \<Rightarrow> (Some e, pc1, w3)
                             | (Inr None, w3) \<Rightarrow> (None, pc1, w3)
                             | (Inr (Some r), w3) \<Rightarrow> attachAndReport E pc1 (Some r) w3)
                          else attachAndReport E pc1 record w2)))"

section \<open>Reading a trace\<close>

text \<open>
  Predicates that pick out kinds of calls, the events a run added to the trace, and the
  statement that a run only added events of one kind.
\<close>

fun isAttach :: "event \<Rightarrow> bool" where
  "isAttach (CallAttach _ _ _) = True"
| "isAttach _ = False"

fun isInsert :: "event \<Rightarrow> bool" where
  "isInsert (CallInsertPrepareRecord _ _ _ _) = True"
| "isInsert _ = False"

fun isPrintln :: "event \<Rightarrow> bool" where
  "isPrintln (Println _) = True"
| "isPrintln _ = False"

fun isCoordinator :: "event \<Rightarrow> bool" where
  "isCoordinator CallGetUnusedPort = True"
| "isCoordinator (CallInsertPrepareRecord _ _ _ _) = True"
| "isCoordinator (Go _) = True"
| "isCoordinator (Sleep _) = True"
| "isCoordinator _ = False"

fun isStoreWrite :: "event \<Rightarrow> bool" where
  "isStoreWrite (CallInsertPrepareRecord _ _ _ _) = True"
| "isStoreWrite (CallUpdatePreparationPort _ _) = True"
| "isStoreWrite (CallUpdatePreparationPid _ _) = True"
| "isStoreWrite (CallHandlePrepareResponse _ _) = True"
| "isStoreWrite _ = False"

fun inAttachAgent :: "event \<Rightarrow> bool" where
  "inAttachAgent (CallAttach _ _ _) = True"
| "inAttachAgent (CallCheckPortFromSandboxToken _) = True"
| "inAttachAgent (CallUpdatePreparationPort _ _) = True"
| "inAttachAgent (Infof _ _) = True"
| "inAttachAgent (Warningf _ _) = True"
| "inAttachAgent _ = False"

fun inReport :: "event \<Rightarrow> bool" where
  "inReport (CallQueryPreparationByUid _) = True"
| "inReport (CallPostCurl _ _ _) = True"
| "inReport (Infof _ _) = True"
| "inReport (Warningf _ _) = True"
| "inReport _ = False"

fun isUpdatePid :: "event \<Rightarrow> bool" where
  "isUpdatePid (CallUpdatePreparationPid _ _) = True"
| "isUpdatePid _ = False"

fun inResolve :: "event \<Rightarrow> bool" where
  "inResolve CallGetUnusedPort = True"
| "inResolve (CallInsertPrepareRecord _ _ _ _) = True"
| "inResolve _ = False"

fun afterResolution :: "event \<Rightarrow> bool" where
  "afterResolution (CallAttach _ _ _) = True"
| "afterResolution (CallCheckPortFromSandboxToken _) = True"
| "afterResolution (CallUpdatePreparationPort _ _) = True"
| "afterResolution (CallUpdatePreparationPid _ _) = True"
| "afterResolution (CallHandlePrepareResponse _ _) = True"
| "afterResolution (CallQueryPreparationByUid _) = True"
| "afterResolution (CallPostCurl _ _ _) = True"
| "afterResolution (Infof _ _) = True"
| "afterResolution (Warningf _ _) = True"
| "afterResolution (Println _) = True"
| "afterResolution _ = False"

definition outcome :: "Response option \<times> world \<Rightarrow> Response option \<times> store \<times> event list" where
  "outcome x = (fst x, store (snd x), filter isPrintln (trace (snd x)))"

definition events_since :: "world \<Rightarrow> world \<Rightarrow> event list" where
  "events_since w w' = drop (length (trace w)) (trace w')"

definition adds :: "(event \<Rightarrow> bool) \<Rightarrow> world \<Rightarrow> world \<Rightarrow> bool" where
  "adds P w w' = (prefix (trace w) (trace w') \<and> list_all P (events_since w w'))"

section \<open>A stub environment\<close>

text \<open>
  Modelled from the spec: the collaborators that \<^verbatim>\<open>prepare_jvm.go\<close> calls and does
  not define (the record store behind \<^verbatim>\<open>GetDS\<close>, \<^verbatim>\<open>insertPrepareRecord\<close>,
  \<^verbatim>\<open>updatePreparationPid\<close>, \<^verbatim>\<open>updatePreparationPort\<close>,
  \<^verbatim>\<open>handlePrepareResponseWithoutExit\<close>, the attach client, the token file, the port
  allocator, the JSON encoder and the HTTP client), as canned values over an in-memory
  record store. They serve to run the command on concrete inputs; the theorems below
  hold for every environment. There is one process \<open>tomcat\<close>, with pid \<open>100\<close> when
  no pid is given; an agent that accepts port \<open>34000\<close> only and answers with a refused
  connection and the identity \<open>admin\<close> otherwise; a token file that maps \<open>admin\<close> to
  port \<open>34000\<close>; a reporting endpoint that answers with HTTP 500. The store follows
  the record store interface: a lookup by uid, an insert that appends a record with a
  new uid, updates of one field of the record with a given uid, and a lookup among the
  \<open>Running\<close> records by type and process name, so that a process that came back
  under a new pid finds its record. The response handler puts the uid into the
  response and stores \<open>Running\<close> or \<open>Error\<close> with the outcome.
\<close>

definition rec0 :: PreparationRecord where
  "rec0 = \<lparr>Uid = ''U1'', ProgramType = ''jvm'', Process = ''tomcat'', Port = ''34000'',
            Pid = ''100'', Status = ''Running'', Error = '''',
            CreateTime = ''t0'', UpdateTime = ''t0''\<rparr>"

definition stub :: env where
  "stub =
     \<lparr>PrepareJvmType = ''jvm'',
      CheckFlagValues = (\<lambda>w n p. (if p = '''' then ''100'' else p, ReturnSuccess ''success'')),
      QueryRunningPreByTypeAndProcess =
        (\<lambda>w t n p. Inr (find (\<lambda>r. ProgramType r = t \<and> Process r = n \<and> Status r = ''Running'')
                          (store w))),
      QueryPreparationByUid = (\<lambda>w u. Inr (find (\<lambda>r. Uid r = u) (store w))),
      insertPrepareRecord =
        (\<lambda>w t n p i.
           let r = \<lparr>Uid = ''U'' @ Itoa (int (length (store w)) + 1), ProgramType = t,
                    Process = n, Port = p, Pid = i, Status = ''Created'', Error = '''',
                    CreateTime = ''t1'', UpdateTime = ''t1''\<rparr>
           in (Inr r, store w @ [r])),
      updatePreparationPid =
        (\<lambda>w u i. (None, map (\<lambda>r. if Uid r = u then r\<lparr>Pid := i\<rparr> else r) (store w))),
      updatePreparationPort =
        (\<lambda>w u p. (None, map (\<lambda>r. if Uid r = u then r\<lparr>Port := p\<rparr> else r) (store w))),
      handlePrepareResponseWithoutExit =
        (\<lambda>w u resp.
           (if Success resp then None else Some (resp\<lparr>Result := u\<rparr>),
            resp\<lparr>Result := u\<rparr>,
            map (\<lambda>r. if Uid r = u
                      then r\<lparr>Status := (if Success resp then ''Running'' else ''Error''),
                             Error := Err resp\<rparr>
                      else r) (store w))),
      Attach =
        (\<lambda>w p j i. if p = ''34000'' then (ReturnSuccess ''success'', '''')
                    else (ReturnFail (OtherCode 604) ''attach failed: connection refused'',
                          ''admin'')),
      CheckPortFromSandboxToken =
        (\<lambda>w u. if u = ''admin'' then Inr ''34000'' else Inl ''token not found''),
      GetUnusedPort = (\<lambda>w. Inr 34000),
      Marshal = (\<lambda>m. Inr ''{}''),
      PostCurl = (\<lambda>w url body ct. (''internal error'', None, 500)),
      Run = (\<lambda>w args. ReturnSuccess '''')\<rparr>"

definition cmd0 :: PrepareJvmCommand where
  "cmd0 = \<lparr>javaHome = '''', processName = ''tomcat'', sandboxHome = ''/opt/chaosblade/lib/sandbox'',
            port = 0, processId = '''', async = False, uid = '''', nohup = False,
            endpoint = ''''\<rparr>"

definition world0 :: world where
  "world0 = \<lparr>store = [], trace = []\<rparr>"

definition world1 :: world where
  "world1 = \<lparr>store = [rec0], trace = []\<rparr>"

text \<open>The world that the first call \<open>prepare jvm --process tomcat\<close> leaves.\<close>

definition world2 :: world where
  "world2 = snd (snd (prepareJvm stub cmd0 world0))"

text \<open>
  The attach step alone, on a command that asks for port \<open>35000\<close>; an environment whose
  token file has no entry; one whose store refuses the port update.
\<close>

definition cmd3 :: PrepareJvmCommand where
  "cmd3 = cmd0\<lparr>port := 35000, processId := ''100'', uid := ''U1''\<rparr>"

definition stub_no_token :: env where
  "stub_no_token = stub\<lparr>CheckPortFromSandboxToken := (\<lambda>w u. Inl ''token not found'')\<rparr>"

definition stub_locked :: env where
  "stub_locked =
     stub\<lparr>updatePreparationPort := (\<lambda>w u p. (Some ''database is locked'', store w))\<rparr>"

text \<open>An environment whose agent cannot be reached at all.\<close>

definition stub_down :: env where
  "stub_down =
     stub\<lparr>Attach := (\<lambda>w p j i. (ReturnFail (OtherCode 604) ''attach failed: no such process'', ''''))\<rparr>"

section \<open>The trace only grows\<close>

lemmas stub_simps = stub_def rec0_def cmd0_def world0_def world1_def ReturnSuccess_def
  ReturnFail_def Itoa_def utoa.simps Atoi_def ParseInt_def ParseUint_def maxUint64_def
  isNegative_def decimalSyntax_def unsignedPart_def is_digit_def
  digit_val_def emit_def
  events_since_def Second_def

lemmas run_simps = prepareJvm_def ManualPreparation_def resolveRecord_def attachAndReport_def
  adoptRecord_def correctPid_def respond_def attachAgent_def reportAttachedResult_def
  createPostBody_def getAndCacheSandboxPort_def invokeAttachingArgs_def Let_def

lemma adds_iff: "adds P w w' \<longleftrightarrow> (\<exists>evs. trace w' = trace w @ evs \<and> list_all P evs)"
  by (auto simp: adds_def events_since_def prefix_def)

lemma adds_refl [simp]: "adds P w w"
  by (simp add: adds_iff)

lemma adds_emit: "adds P w w' \<Longrightarrow> P e \<Longrightarrow> adds P w (emit e w')"
  by (auto simp: adds_iff emit_def)

lemma adds_store [simp]: "adds P w (w'\<lparr>store := s\<rparr>) = adds P w w'"
  by (simp add: adds_iff)

lemma adds_trans: "adds P a b \<Longrightarrow> adds P b c \<Longrightarrow> adds P a c"
  by (auto simp: adds_iff)

lemma adds_mono: "adds P w w' \<Longrightarrow> (\<And>e. P e \<Longrightarrow> Q e) \<Longrightarrow> adds Q w w'"
  by (auto simp: adds_iff list_all_iff)

lemma adds_trace: "adds P w w' \<Longrightarrow> trace w' = trace w @ events_since w w'"
  by (auto simp: adds_iff events_since_def)

lemma adds_filter: "adds P w w' \<Longrightarrow> (\<And>e. P e \<Longrightarrow> \<not> Q e) \<Longrightarrow> filter Q (events_since w w') = []"
  by (auto simp: adds_iff events_since_def list_all_iff filter_empty_conv)

lemma events_since_append:
  "adds P a b \<Longrightarrow> adds Q b c \<Longrightarrow> events_since a c = events_since a b @ events_since b c"
  by (auto simp: adds_iff events_since_def)

lemma events_since_self [simp]: "events_since w w = []"
  by (simp add: events_since_def)

lemma events_since_store [simp]: "events_since w (w'\<lparr>store := s\<rparr>) = events_since w w'"
  by (simp add: events_since_def)

lemma events_since_emit:
  "adds P w w' \<Longrightarrow> events_since w (emit e w') = events_since w w' @ [e]"
  by (auto simp: adds_iff events_since_def emit_def)

lemma store_emit [simp]: "store (emit e w) = store w"
  by (simp add: emit_def)

lemma trace_emit [simp]: "trace (emit e w) = trace w @ [e]"
  by (simp add: emit_def)

lemma attachAgent_adds: "adds inAttachAgent w (snd (attachAgent E pc w))"
  by (auto simp: attachAgent_def Let_def adds_iff split: prod.splits sum.splits option.splits)

lemma createPostBody_adds: "adds inReport w (snd (createPostBody E u w))"
  by (auto simp: createPostBody_def Let_def adds_iff split: prod.splits sum.splits option.splits)

lemma createPostBody_store: "store (snd (createPostBody E u w)) = store w"
  by (auto simp: createPostBody_def Let_def split: prod.splits sum.splits option.splits)

lemma reportAttachedResult_adds: "adds inReport w (reportAttachedResult E pc r w)"
proof -
  let ?w1 = "emit (Infof ''report response: %s to endpoint: %s'' [R r, S (endpoint pc)]) w"
  have a: "adds inReport w ?w1" by (simp add: adds_iff)
  have b: "adds inReport ?w1 (snd (createPostBody E (uid pc) ?w1))" by (rule createPostBody_adds)
  have c: "adds inReport (snd (createPostBody E (uid pc) ?w1)) (reportAttachedResult E pc r w)"
    by (auto simp: reportAttachedResult_def Let_def adds_iff split: prod.splits sum.splits option.splits)
  from a b c show ?thesis by (blast intro: adds_trans)
qed

lemma reportAttachedResult_store: "store (reportAttachedResult E pc r w) = store w"
  using createPostBody_store [of E "uid pc" "emit (Infof ''report response: %s to endpoint: %s'' [R r, S (endpoint pc)]) w"]
  by (auto simp: reportAttachedResult_def Let_def split: prod.splits sum.splits option.splits)

lemma getAndCacheSandboxPort_adds:
  "adds (\<lambda>e. e = CallGetUnusedPort) w (snd (getAndCacheSandboxPort E w))"
  by (auto simp: getAndCacheSandboxPort_def adds_iff split: sum.splits)

lemma resolveRecord_adds: "adds inResolve w (snd (resolveRecord E pc rec w))"
  by (auto simp: resolveRecord_def getAndCacheSandboxPort_def adds_iff
      split: prod.splits sum.splits option.splits if_splits)

lemma inReport_afterResolution: "inReport e \<Longrightarrow> afterResolution e"
  by (cases e) simp_all

lemma inAttachAgent_afterResolution: "inAttachAgent e \<Longrightarrow> afterResolution e"
  by (cases e) simp_all

lemma afterResolution_not_coordinator: "afterResolution e \<Longrightarrow> \<not> isCoordinator e"
  by (cases e) simp_all

lemma afterResolution_not_insert: "afterResolution e \<Longrightarrow> \<not> isInsert e"
  by (cases e) simp_all

lemma inResolve_not_attach: "inResolve e \<Longrightarrow> \<not> isAttach e"
  by (cases e) simp_all

lemma inResolve_not_println: "inResolve e \<Longrightarrow> \<not> isPrintln e"
  by (cases e) simp_all

lemma inReport_not_println: "inReport e \<Longrightarrow> \<not> isPrintln e"
  by (cases e) simp_all

lemma inReport_not_attach: "inReport e \<Longrightarrow> \<not> isAttach e"
  by (cases e) simp_all

lemma correctPid_adds: "adds isUpdatePid w (correctPid E pc rec w)"
  by (auto simp: correctPid_def adds_iff split: option.splits)

lemma respond_adds:
  "adds (\<lambda>e. \<not> isAttach e \<and> afterResolution e) w (snd (respond E pc response w))"
proof -
  obtain preErr response' s
    where h: "handlePrepareResponseWithoutExit E w (uid pc) response = (preErr, response', s)"
    by (cases "handlePrepareResponseWithoutExit E w (uid pc) response")
  let ?P = "\<lambda>e. \<not> isAttach e \<and> afterResolution e"
  let ?w1 = "emit (CallHandlePrepareResponse (uid pc) response) (w\<lparr>store := s\<rparr>)"
  let ?w2 = "if async pc \<and> endpoint pc \<noteq> '''' then reportAttachedResult E pc response' ?w1 else ?w1"
  have 1: "adds ?P w ?w1" by (simp add: adds_iff)
  have "adds ?P ?w1 (reportAttachedResult E pc response' ?w1)"
    by (rule adds_mono [OF reportAttachedResult_adds])
       (simp add: inReport_afterResolution inReport_not_attach)
  then have 2: "adds ?P ?w1 ?w2" by simp
  have 3: "adds ?P ?w2 (emit (Println response') ?w2)" by (simp add: adds_iff)
  have "snd (respond E pc response w) = (case preErr of None \<Rightarrow> emit (Println response') ?w2 | Some e \<Rightarrow> ?w2)"
    using h by (simp add: respond_def Let_def split: option.splits)
  then show ?thesis using 1 2 3
    by (auto split: option.splits intro: adds_trans)
qed

lemma attachAndReport_adds: "adds afterResolution w (snd (snd (attachAndReport E pc rec w)))"
proof -
  let ?pc2 = "adoptRecord pc rec"
  obtain response w1 where a: "attachAgent E ?pc2 w = (response, w1)"
    by (cases "attachAgent E ?pc2 w")
  have 1: "adds afterResolution w w1"
    using adds_mono [OF attachAgent_adds [of w E ?pc2]] a
    by (simp add: inAttachAgent_afterResolution)
  have 2: "adds afterResolution w1 (correctPid E ?pc2 rec w1)"
    by (rule adds_mono [OF correctPid_adds]) (auto elim: isUpdatePid.elims)
  have 3: "adds afterResolution (correctPid E ?pc2 rec w1)
             (snd (respond E ?pc2 response (correctPid E ?pc2 rec w1)))"
    by (rule adds_mono [OF respond_adds]) simp
  have "snd (snd (attachAndReport E pc rec w))
          = snd (respond E ?pc2 response (correctPid E ?pc2 rec w1))"
    using a by (simp add: attachAndReport_def Let_def split: prod.splits)
  then show ?thesis using 1 2 3 by (auto intro: adds_trans)
qed

lemma ManualPreparation_adds:
  "adds (\<lambda>e. isCoordinator e \<or> isPrintln e) w (snd (ManualPreparation E pc rec w))"
proof -
  let ?P = "\<lambda>e. isCoordinator e \<or> isPrintln e"
  have r: "adds ?P w (snd (resolveRecord E pc rec w))"
    by (rule adds_mono [OF resolveRecord_adds]) (auto elim: inResolve.elims)
  show ?thesis
  proof (cases "resolveRecord E pc rec w")
    case (Pair x w1)
    with r have "adds ?P w w1" by simp
    then show ?thesis using Pair
      by (cases x) (auto simp: ManualPreparation_def intro!: adds_emit)
  qed
qed

lemma prepareJvm_resolved:
  assumes "processName pc \<noteq> '''' \<or> processId pc \<noteq> ''''"
    and "CheckFlagValues E w (processName pc) (processId pc) = (pid, resp)"
    and "Success resp"
    and "QueryRunningPreByTypeAndProcess E
           (emit (CallCheckFlagValues (processName pc) (processId pc)) w)
           (PrepareJvmType E) (processName pc) pid = Inr found"
    and "pc1 = pc\<lparr>processId := pid\<rparr>"
    and "w2 = emit (CallQueryRunningPre (PrepareJvmType E) (processName pc) pid)
                (emit (CallCheckFlagValues (processName pc) (processId pc)) w)"
  shows "prepareJvm E pc w =
           (if \<not> nohup pc
            then (case ManualPreparation E pc1 found w2 of
                    (Inl e, w3) \<Rightarrow> (Some e, pc1, w3)
                  | (Inr None, w3) \<Rightarrow> (None, pc1, w3)
                  | (Inr (Some r), w3) \<Rightarrow> attachAndReport E pc1 (Some r) w3)
            else attachAndReport E pc1 found w2)"
  using assms by (auto simp: prepareJvm_def Let_def)

lemma prepareJvm_cases [case_names NoTarget FlagsFailed QueryFailed Resolved]:
  obtains
    (NoTarget) "processName pc = ''''" "processId pc = ''''"
      "prepareJvm E pc w
         = (Some (ReturnFail IllegalParameters ''less --process or --pid flags''), pc, w)"
  | (FlagsFailed) pid resp where
      "CheckFlagValues E w (processName pc) (processId pc) = (pid, resp)" "\<not> Success resp"
      "prepareJvm E pc w
         = (Some resp, pc, emit (CallCheckFlagValues (processName pc) (processId pc)) w)"
  | (QueryFailed) pid err where
      "prepareJvm E pc w
         = (Some (ReturnFail DatabaseError (''query attach java process record err, '' @ err)),
            pc\<lparr>processId := pid\<rparr>,
            emit (CallQueryRunningPre (PrepareJvmType E) (processName pc) pid)
              (emit (CallCheckFlagValues (processName pc) (processId pc)) w))"
  | (Resolved) pid resp found where
      "processName pc \<noteq> '''' \<or> processId pc \<noteq> ''''"
      "CheckFlagValues E w (processName pc) (processId pc) = (pid, resp)" "Success resp"
      "QueryRunningPreByTypeAndProcess E
         (emit (CallCheckFlagValues (processName pc) (processId pc)) w)
         (PrepareJvmType E) (processName pc) pid = Inr found"
proof (cases "processName pc = '''' \<and> processId pc = ''''")
  case True
  then show ?thesis using NoTarget by (simp add: prepareJvm_def)
next
  case target: False
  obtain pid resp where f: "CheckFlagValues E w (processName pc) (processId pc) = (pid, resp)"
    by (cases "CheckFlagValues E w (processName pc) (processId pc)")
  show ?thesis
  proof (cases "Success resp")
    case False
    then show ?thesis using FlagsFailed [OF f] target f by (simp add: prepareJvm_def)
  next
    case ok: True
    show ?thesis
    proof (cases "QueryRunningPreByTypeAndProcess E
                    (emit (CallCheckFlagValues (processName pc) (processId pc)) w)
                    (PrepareJvmType E) (processName pc) pid")
      case (Inl err)
      then show ?thesis using QueryFailed [of err pid] target f ok
        by (simp add: prepareJvm_def Let_def)
    next
      case (Inr found)
      then show ?thesis using Resolved [OF _ f ok] target by blast
    qed
  qed
qed

lemma adds_emit2: "P e1 \<Longrightarrow> P e2 \<Longrightarrow> adds P w (emit e2 (emit e1 w))"
  by (simp add: adds_iff)

lemma nohup_adds:
  assumes "nohup pc"
  shows "adds (\<lambda>e. \<not> isCoordinator e) w (snd (snd (prepareJvm E pc w)))"
proof (cases rule: prepareJvm_cases [of pc E w])
  case NoTarget
  then show ?thesis by simp
next
  case (FlagsFailed pid resp)
  then show ?thesis by (simp add: adds_iff)
next
  case (QueryFailed pid err)
  then show ?thesis by (simp add: adds_iff)
next
  case (Resolved pid resp found)
  let ?w2 = "emit (CallQueryRunningPre (PrepareJvmType E) (processName pc) pid)
               (emit (CallCheckFlagValues (processName pc) (processId pc)) w)"
  have "prepareJvm E pc w = attachAndReport E (pc\<lparr>processId := pid\<rparr>) found ?w2"
    using prepareJvm_resolved [OF Resolved refl refl] assms by simp
  moreover have "adds (\<lambda>e. \<not> isCoordinator e) w ?w2"
    by (simp add: adds_emit2)
  moreover have "adds (\<lambda>e. \<not> isCoordinator e) ?w2
                   (snd (snd (attachAndReport E (pc\<lparr>processId := pid\<rparr>) found ?w2)))"
    by (rule adds_mono [OF attachAndReport_adds]) (rule afterResolution_not_coordinator)
  ultimately show ?thesis by (auto intro: adds_trans)
qed

lemma Atoi_syntax_zero: "snd (Atoi s) = Some ErrSyntax \<Longrightarrow> fst (Atoi s) = 0"
  by (auto simp: Atoi_def ParseInt_def Let_def split: if_splits prod.splits)

lemma digit_val_le: "is_digit c \<Longrightarrow> digit_val c \<le> 9"
  unfolding is_digit_def digit_val_def by linarith

lemma ParseUintLoop_syntax:
  "\<not> list_all is_digit cs \<Longrightarrow> n < 10 ^ k \<Longrightarrow> k + length cs \<le> 19
    \<Longrightarrow> ParseUintLoop cs n = (0, Some ErrSyntax)"
proof (induction cs arbitrary: n k)
  case Nil
  then show ?case by simp
next
  case (Cons c cs)
  show ?case
  proof (cases "is_digit c")
    case False
    then show ?thesis by simp
  next
    case True
    have k: "k \<le> 18" using Cons.prems(3) by simp
    have p18: "(10::nat) ^ k \<le> 10 ^ 18"
      by (rule power_increasing) (use k in simp_all)
    have "(10::nat) ^ 18 = 1000000000000000000" by simp
    then have n18: "n < 1000000000000000000" using Cons.prems(2) p18 by linarith
    have d: "digit_val c \<le> 9" using True by (rule digit_val_le)
    have next_lt: "n * 10 + digit_val c < 10 ^ Suc k"
      using Cons.prems(2) d by simp
    have rest: "\<not> list_all is_digit cs" using Cons.prems(1) True by simp
    have "ParseUintLoop cs (n * 10 + digit_val c) = (0, Some ErrSyntax)"
      using Cons.IH [OF rest next_lt] Cons.prems(3) by simp
    then show ?thesis using True n18 d by (simp add: maxUint64_def)
  qed
qed

lemma Atoi_syntax_short:
  assumes "\<not> decimalSyntax s" and "length s < 20"
  shows "Atoi s = (0, Some ErrSyntax)"
proof (cases "0 < length s \<and> length s < 19")
  case True
  then show ?thesis using assms(1) by (auto simp: Atoi_def decimalSyntax_def)
next
  case False
  show ?thesis
  proof (cases "s = []")
    case True
    then show ?thesis by (simp add: Atoi_def ParseInt_def)
  next
    case ne: False
    have len: "length (unsignedPart s) \<le> 19"
      using assms(2) by (cases s) (auto simp: unsignedPart_def)
    have "ParseUint (unsignedPart s) = (0, Some ErrSyntax)"
    proof (cases "unsignedPart s = []")
      case True
      then show ?thesis by (simp add: ParseUint_def)
    next
      case False
      then have "\<not> list_all is_digit (unsignedPart s)"
        using assms(1) by (simp add: decimalSyntax_def)
      then have "ParseUintLoop (unsignedPart s) 0 = (0, Some ErrSyntax)"
        using ParseUintLoop_syntax [of "unsignedPart s" 0 0] len by simp
      then show ?thesis using False by (simp add: ParseUint_def)
    qed
    then show ?thesis using False ne by (simp add: Atoi_def ParseInt_def)
  qed
qed

lemma Itoa_0: "Itoa 0 = ''0''"
  by (simp add: Itoa_def utoa.simps)

lemma inReport_not_updatePid: "inReport e \<Longrightarrow> \<not> isUpdatePid e"
  by (cases e) simp_all

lemma inAttachAgent_not_updatePid: "inAttachAgent e \<Longrightarrow> \<not> isUpdatePid e"
  by (cases e) simp_all

lemma attachAgent_first:
  "\<exists>rest. events_since w (snd (attachAgent E pc w))
     = CallAttach (Itoa (port pc)) (javaHome pc) (processId pc) # rest"
  by (auto simp: attachAgent_def Let_def events_since_def split: prod.splits sum.splits option.splits)

lemma respond_first:
  "\<exists>post. events_since w (snd (respond E pc response w))
     = CallHandlePrepareResponse (uid pc) response # post
     \<and> filter isAttach post = [] \<and> filter isUpdatePid post = []"
proof -
  obtain preErr response' s
    where h: "handlePrepareResponseWithoutExit E w (uid pc) response = (preErr, response', s)"
    by (cases "handlePrepareResponseWithoutExit E w (uid pc) response")
  let ?w1 = "emit (CallHandlePrepareResponse (uid pc) response) (w\<lparr>store := s\<rparr>)"
  let ?w2 = "if async pc \<and> endpoint pc \<noteq> '''' then reportAttachedResult E pc response' ?w1 else ?w1"
  have "adds inReport ?w1 ?w2" by (simp add: reportAttachedResult_adds)
  then obtain evs where evs: "trace ?w2 = trace ?w1 @ evs" "list_all inReport evs"
    by (auto simp: adds_iff)
  have f: "filter isAttach evs = []" "filter isUpdatePid evs = []"
    using evs(2)
    by (auto simp: list_all_iff filter_empty_conv dest: inReport_not_attach inReport_not_updatePid)
  have "snd (respond E pc response w)
          = (case preErr of None \<Rightarrow> emit (Println response') ?w2 | Some e \<Rightarrow> ?w2)"
    using h by (simp add: respond_def Let_def split: option.splits)
  then show ?thesis using evs(1) f
    by (cases preErr) (simp_all add: events_since_def)
qed

lemma attachAndReport_events:
  assumes "pc2 = adoptRecord pc rec"
  shows "\<exists>rest post.
      events_since w (snd (snd (attachAndReport E pc rec w)))
        = CallAttach (Itoa (port pc2)) (javaHome pc2) (processId pc2) # rest
          @ events_since (snd (attachAgent E pc2 w))
              (correctPid E pc2 rec (snd (attachAgent E pc2 w)))
          @ CallHandlePrepareResponse (uid pc2) (fst (attachAgent E pc2 w)) # post
      \<and> filter isUpdatePid rest = []
      \<and> filter isAttach post = [] \<and> filter isUpdatePid post = []"
proof -
  obtain response w1 where a: "attachAgent E pc2 w = (response, w1)"
    by (cases "attachAgent E pc2 w")
  let ?w2 = "correctPid E pc2 rec w1"
  let ?w3 = "snd (respond E pc2 response ?w2)"
  have r: "snd (snd (attachAndReport E pc rec w)) = ?w3"
    using a assms by (simp add: attachAndReport_def Let_def split: prod.splits)
  obtain rest where 1: "events_since w w1
      = CallAttach (Itoa (port pc2)) (javaHome pc2) (processId pc2) # rest"
    using attachAgent_first [of w E pc2] a by auto
  have aa: "adds inAttachAgent w w1" using attachAgent_adds [of w E pc2] a by simp
  have ab: "adds isUpdatePid w1 ?w2" by (rule correctPid_adds)
  have ac: "adds (\<lambda>e. \<not> isAttach e \<and> afterResolution e) ?w2 ?w3" by (rule respond_adds)
  obtain post where 3: "events_since ?w2 ?w3 = CallHandlePrepareResponse (uid pc2) response # post"
      "filter isAttach post = []" "filter isUpdatePid post = []"
    using respond_first [of ?w2 E pc2 response] by auto
  have "list_all inAttachAgent (events_since w w1)" using aa by (simp add: adds_def)
  then have "filter isUpdatePid rest = []"
    unfolding 1 by (auto simp: list_all_iff filter_empty_conv dest: inAttachAgent_not_updatePid)
  moreover have "events_since w ?w3 = events_since w w1 @ events_since w1 ?w2 @ events_since ?w2 ?w3"
    using events_since_append [OF aa adds_trans [OF adds_mono [OF ab] adds_mono [OF ac]], of "\<lambda>e. True"]
          events_since_append [OF ab ac]
    by simp
  ultimately show ?thesis
    unfolding r using 1 3 a by auto
qed

lemma stub_flags:
  "CheckFlagValues stub w n p = (if p = '''' then ''100'' else p, ReturnSuccess ''success'')"
  by (simp add: stub_def)

lemma stub_query_world1:
  "store w = [rec0] \<Longrightarrow>
   QueryRunningPreByTypeAndProcess stub w (PrepareJvmType stub) ''tomcat'' p = Inr (Some rec0)"
  by (simp add: stub_def rec0_def)

lemma stub_type: "PrepareJvmType stub = ''jvm''"
  by (simp add: stub_def)

lemma Success_ReturnSuccess: "Success (ReturnSuccess x)"
  by (simp add: ReturnSuccess_def)

lemma attachAgent_uids:
  assumes "\<And>w u x. map Uid (snd (updatePreparationPort E w u x)) = map Uid (store w)"
  shows "map Uid (store (snd (attachAgent E pc w))) = map Uid (store w)"
proof -
  have k: "\<And>w u x e s. updatePreparationPort E w u x = (e, s) \<Longrightarrow> map Uid s = map Uid (store w)"
    using assms by (metis snd_conv)
  show ?thesis
    by (auto simp: attachAgent_def Let_def split: prod.splits sum.splits option.splits dest!: k)
qed

lemma correctPid_uids:
  assumes "\<And>w u x. map Uid (snd (updatePreparationPid E w u x)) = map Uid (store w)"
  shows "map Uid (store (correctPid E pc rec w)) = map Uid (store w)"
  using assms by (simp add: correctPid_def split: option.splits)

lemma respond_uids:
  assumes "\<And>w u x. map Uid (snd (snd (handlePrepareResponseWithoutExit E w u x))) = map Uid (store w)"
  shows "map Uid (store (snd (respond E pc response w))) = map Uid (store w)"
proof -
  obtain preErr response' s
    where h: "handlePrepareResponseWithoutExit E w (uid pc) response = (preErr, response', s)"
    by (cases "handlePrepareResponseWithoutExit E w (uid pc) response")
  have "map Uid s = map Uid (store w)" using assms [of w "uid pc" response] h by simp
  then show ?thesis using h
    by (cases preErr) (simp_all add: respond_def Let_def reportAttachedResult_store)
qed

lemma attachAndReport_uids:
  assumes "\<And>w u x. map Uid (snd (updatePreparationPort E w u x)) = map Uid (store w)"
    and "\<And>w u x. map Uid (snd (updatePreparationPid E w u x)) = map Uid (store w)"
    and "\<And>w u x. map Uid (snd (snd (handlePrepareResponseWithoutExit E w u x))) = map Uid (store w)"
  shows "map Uid (store (snd (snd (attachAndReport E pc rec w)))) = map Uid (store w)"
proof -
  let ?pc2 = "adoptRecord pc rec"
  obtain response w1 where a: "attachAgent E ?pc2 w = (response, w1)"
    by (cases "attachAgent E ?pc2 w")
  have 1: "map Uid (store w1) = map Uid (store w)"
    using attachAgent_uids [of E ?pc2 w, OF assms(1)] a by simp
  have 2: "map Uid (store (correctPid E ?pc2 rec w1)) = map Uid (store w1)"
    by (rule correctPid_uids [OF assms(2)])
  have 3: "map Uid (store (snd (respond E ?pc2 response (correctPid E ?pc2 rec w1))))
             = map Uid (store (correctPid E ?pc2 rec w1))"
    by (rule respond_uids [OF assms(3)])
  have "snd (snd (attachAndReport E pc rec w))
          = snd (respond E ?pc2 response (correctPid E ?pc2 rec w1))"
    using a by (simp add: attachAndReport_def Let_def split: prod.splits)
  then show ?thesis using 1 2 3 by simp
qed

lemma first_call:
  "prepareJvm stub cmd0 world0
     = (None, cmd0\<lparr>processId := ''100'', uid := ''U1'', port := 34000\<rparr>,
        \<lparr>store = [rec0\<lparr>CreateTime := ''t1'', UpdateTime := ''t1''\<rparr>],
         trace = [CallCheckFlagValues ''tomcat'' '''',
                  CallQueryRunningPre ''jvm'' ''tomcat'' ''100'',
                  CallGetUnusedPort,
                  CallInsertPrepareRecord ''jvm'' ''tomcat'' ''34000'' ''100'',
                  CallAttach ''34000'' '''' ''100'',
                  CallHandlePrepareResponse ''U1'' (ReturnSuccess ''success''),
                  Println (ReturnSuccess ''U1'')]\<rparr>)"
  by (simp add: run_simps stub_simps)

lemma prepareJvm_reuse:
  assumes target: "processName pc \<noteq> '''' \<or> processId pc \<noteq> ''''"
    and flags: "CheckFlagValues E w (processName pc) (processId pc) = (pid, resp)"
    and ok: "Success resp"
    and query: "QueryRunningPreByTypeAndProcess E
                  (emit (CallCheckFlagValues (processName pc) (processId pc)) w)
                  (PrepareJvmType E) (processName pc) pid = Inr (Some r)"
    and path: "nohup pc \<or> (\<not> async pc \<and> Status r = ''Running''
                 \<and> (port pc = 0 \<or> Itoa (port pc) = Port r))"
  shows "prepareJvm E pc w
           = attachAndReport E (pc\<lparr>processId := pid\<rparr>) (Some r)
               (emit (CallQueryRunningPre (PrepareJvmType E) (processName pc) pid)
                 (emit (CallCheckFlagValues (processName pc) (processId pc)) w))"
  using prepareJvm_resolved [OF target flags ok query refl refl] path
  by (auto simp: ManualPreparation_def resolveRecord_def)

lemma events_since_after2:
  assumes "adds P (emit e2 (emit e1 w)) w'"
  shows "events_since w w' = e1 # e2 # events_since (emit e2 (emit e1 w)) w'"
  using assms by (auto simp: adds_iff events_since_def)

lemma adoptRecord_fields:
  "uid (adoptRecord pc (Some r)) = (if uid pc = '''' then Uid r else uid pc)"
  "port (adoptRecord pc (Some r)) = (if port pc = 0 then fst (Atoi (Port r)) else port pc)"
  "javaHome (adoptRecord pc rec) = javaHome pc"
  "processId (adoptRecord pc rec) = processId pc"
  by (simp_all add: adoptRecord_def Let_def split: option.splits)

lemma resolveRecord_endpoint:
  "resolveRecord E (pc\<lparr>endpoint := e\<rparr>) rec w = resolveRecord E pc rec w"
  by (simp add: resolveRecord_def cong: option.case_cong prod.case_cong sum.case_cong if_cong)

lemma adoptRecord_endpoint:
  "adoptRecord (pc\<lparr>endpoint := e\<rparr>) rec = (adoptRecord pc rec)\<lparr>endpoint := e\<rparr>"
  by (simp add: adoptRecord_def Let_def split: option.splits)

lemma attachAgent_endpoint:
  "attachAgent E (pc\<lparr>endpoint := e\<rparr>) w = attachAgent E pc w"
  by (simp add: attachAgent_def cong: option.case_cong prod.case_cong sum.case_cong if_cong)

lemma correctPid_endpoint:
  "correctPid E (pc\<lparr>endpoint := e\<rparr>) rec w = correctPid E pc rec w"
  by (simp add: correctPid_def cong: option.case_cong if_cong)

lemma report_println:
  "filter isPrintln (trace (reportAttachedResult E pc r w)) = filter isPrintln (trace w)"
proof -
  obtain evs where "trace (reportAttachedResult E pc r w) = trace w @ evs" "list_all inReport evs"
    using reportAttachedResult_adds [of w E pc r] by (auto simp: adds_iff)
  then show ?thesis
    by (auto simp: list_all_iff filter_empty_conv dest: inReport_not_println)
qed

lemma respond_endpoint:
  "outcome (respond E (pc\<lparr>endpoint := e\<rparr>) response w) = outcome (respond E pc response w)"
proof -
  obtain preErr response' s
    where h: "handlePrepareResponseWithoutExit E w (uid pc) response = (preErr, response', s)"
    by (cases "handlePrepareResponseWithoutExit E w (uid pc) response")
  show ?thesis
    using h
    by (cases preErr)
       (simp_all add: respond_def outcome_def Let_def report_println reportAttachedResult_store)
qed

lemma attachAndReport_outcome:
  "(case attachAndReport E pc rec w of (r, q, w') \<Rightarrow> outcome (r, w'))
     = outcome (respond E (adoptRecord pc rec) (fst (attachAgent E (adoptRecord pc rec) w))
         (correctPid E (adoptRecord pc rec) rec (snd (attachAgent E (adoptRecord pc rec) w))))"
  by (simp add: attachAndReport_def Let_def split: prod.splits)

lemma attachAndReport_endpoint:
  "(case attachAndReport E (pc\<lparr>endpoint := e\<rparr>) rec w of (r, q, w') \<Rightarrow> outcome (r, w'))
     = (case attachAndReport E pc rec w of (r, q, w') \<Rightarrow> outcome (r, w'))"
  unfolding attachAndReport_outcome
  by (simp add: adoptRecord_endpoint attachAgent_endpoint correctPid_endpoint respond_endpoint)

lemma prepareJvm_endpoint:
  "(case prepareJvm E (pc\<lparr>endpoint := e\<rparr>) w of (r, q, w') \<Rightarrow> outcome (r, w'))
     = (case prepareJvm E pc w of (r, q, w') \<Rightarrow> outcome (r, w'))"
proof (cases "processName pc = '''' \<and> processId pc = ''''")
  case True
  then show ?thesis by (simp add: prepareJvm_def)
next
  case target: False
  obtain pid resp where f: "CheckFlagValues E w (processName pc) (processId pc) = (pid, resp)"
    by (cases "CheckFlagValues E w (processName pc) (processId pc)")
  show ?thesis
  proof (cases "Success resp")
    case False
    then show ?thesis using target f by (auto simp: prepareJvm_def)
  next
    case ok: True
    let ?w1 = "emit (CallCheckFlagValues (processName pc) (processId pc)) w"
    let ?w2 = "emit (CallQueryRunningPre (PrepareJvmType E) (processName pc) pid) ?w1"
    let ?pc1 = "pc\<lparr>processId := pid\<rparr>"
    show ?thesis
    proof (cases "QueryRunningPreByTypeAndProcess E ?w1 (PrepareJvmType E) (processName pc) pid")
      case (Inl err)
      then show ?thesis using target f ok by (auto simp: prepareJvm_def Let_def)
    next
      case (Inr found)
      have t: "processName pc \<noteq> '''' \<or> processId pc \<noteq> ''''" using target by simp
      have a: "prepareJvm E pc w =
           (if \<not> nohup pc
            then (case ManualPreparation E ?pc1 found ?w2 of
                    (Inl e, w3) \<Rightarrow> (Some e, ?pc1, w3)
                  | (Inr None, w3) \<Rightarrow> (None, ?pc1, w3)
                  | (Inr (Some r), w3) \<Rightarrow> attachAndReport E ?pc1 (Some r) w3)
            else attachAndReport E ?pc1 found ?w2)"
        by (rule prepareJvm_resolved [OF t f ok Inr refl refl])
      have b: "prepareJvm E (pc\<lparr>endpoint := e\<rparr>) w =
           (if \<not> nohup pc
            then (case ManualPreparation E (?pc1\<lparr>endpoint := e\<rparr>) found ?w2 of
                    (Inl e', w3) \<Rightarrow> (Some e', ?pc1\<lparr>endpoint := e\<rparr>, w3)
                  | (Inr None, w3) \<Rightarrow> (None, ?pc1\<lparr>endpoint := e\<rparr>, w3)
                  | (Inr (Some r), w3) \<Rightarrow> attachAndReport E (?pc1\<lparr>endpoint := e\<rparr>) (Some r) w3)
            else attachAndReport E (?pc1\<lparr>endpoint := e\<rparr>) found ?w2)"
        using prepareJvm_resolved [of "pc\<lparr>endpoint := e\<rparr>" E w pid resp found
            "?pc1\<lparr>endpoint := e\<rparr>" ?w2] t f ok Inr
        by simp
      show ?thesis
      proof (cases "nohup pc")
        case True
        then show ?thesis unfolding a b by (simp add: attachAndReport_endpoint)
      next
        case manual: False
        obtain x w3 where r: "resolveRecord E ?pc1 found ?w2 = (x, w3)"
          by (cases "resolveRecord E ?pc1 found ?w2")
        show ?thesis
        proof (cases x)
          case (Inl err)
          then show ?thesis unfolding a b using manual r
            by (simp add: ManualPreparation_def resolveRecord_endpoint outcome_def)
        next
          case (Inr rr)
          show ?thesis
          proof (cases "async pc")
            case True
            then show ?thesis unfolding a b using manual r Inr
              by (simp add: ManualPreparation_def resolveRecord_endpoint outcome_def)
          next
            case False
            then show ?thesis unfolding a b using manual r Inr
              by (simp add: ManualPreparation_def resolveRecord_endpoint attachAndReport_endpoint)
          qed
        qed
      qed
    qed
  qed
qed

section \<open>The preparation coordinator\<close>

text \<open>
  Claim C1, as amended. The target has a record with status \<open>Running\<close> (the query
  returns it) and the call passes no port. Then the run never inserts a record, and the
  resolution step hands back that same record without touching the store or the trace.
  With \<open>async\<close> set and \<open>nohup\<close> not set, the call acknowledges the uid of the record
  and hands its port and uid to the re-invocation. Otherwise the command takes the port
  of the record, and its uid when the caller gave none; the first attach goes to that
  port and the response is recorded under that uid. When the helpers that update a
  record or store a response change records in place, the store holds the same records
  after the call as before it, uid by uid: no duplicate of the record exists. Whether
  the record is still \<open>Running\<close> is up to the response handler.
\<close>

theorem running_record_is_reused:
  assumes target: "processName pc \<noteq> '''' \<or> processId pc \<noteq> ''''"
    and flags: "CheckFlagValues E w (processName pc) (processId pc) = (pid, resp)"
    and ok: "Success resp"
    and query: "QueryRunningPreByTypeAndProcess E
                  (emit (CallCheckFlagValues (processName pc) (processId pc)) w)
                  (PrepareJvmType E) (processName pc) pid = Inr (Some r)"
    and running: "Status r = ''Running''"
    and noport: "port pc = 0"
    and pc1: "pc1 = pc\<lparr>processId := pid\<rparr>"
    and w2: "w2 = emit (CallQueryRunningPre (PrepareJvmType E) (processName pc) pid)
                    (emit (CallCheckFlagValues (processName pc) (processId pc)) w)"
  shows "filter isInsert (events_since w (snd (snd (prepareJvm E pc w)))) = []
    \<and> resolveRecord E pc1 (Some r) w2 = (Inr r, w2)
    \<and> (async pc \<and> \<not> nohup pc \<longrightarrow>
          prepareJvm E pc w
            = (None, pc1,
               emit (Println (ReturnSuccess (Uid r)))
                 (emit (Sleep 1000000000)
                   (emit (Go (invokeAttachingArgs pc1 (Port r) (Uid r))) w2))))
    \<and> (\<not> (async pc \<and> \<not> nohup pc) \<longrightarrow>
          uid (fst (snd (prepareJvm E pc w))) = (if uid pc = '''' then Uid r else uid pc)
          \<and> port (fst (snd (prepareJvm E pc w))) = fst (Atoi (Port r))
          \<and> (\<exists>rest post.
                events_since w (snd (snd (prepareJvm E pc w)))
                  = CallCheckFlagValues (processName pc) (processId pc)
                    # CallQueryRunningPre (PrepareJvmType E) (processName pc) pid
                    # CallAttach (Itoa (fst (Atoi (Port r)))) (javaHome pc) pid
                    # rest
                    @ CallHandlePrepareResponse (if uid pc = '''' then Uid r else uid pc)
                        (fst (attachAgent E (adoptRecord pc1 (Some r)) w2))
                    # post))
    \<and> ((\<forall>v u x. map Uid (snd (updatePreparationPort E v u x)) = map Uid (store v))
         \<and> (\<forall>v u x. map Uid (snd (updatePreparationPid E v u x)) = map Uid (store v))
         \<and> (\<forall>v u x. map Uid (snd (snd (handlePrepareResponseWithoutExit E v u x)))
                       = map Uid (store v))
        \<longrightarrow> map Uid (store (snd (snd (prepareJvm E pc w)))) = map Uid (store w))"
proof -
  let ?pc2 = "adoptRecord pc1 (Some r)"
  have res: "\<And>q w0. port q = 0 \<Longrightarrow> resolveRecord E q (Some r) w0 = (Inr r, w0)"
    using running by (simp add: resolveRecord_def)
  have man: "resolveRecord E pc1 (Some r) w2 = (Inr r, w2)"
    using res [of pc1 w2] noport pc1 by simp
  have p2: "uid ?pc2 = (if uid pc = '''' then Uid r else uid pc)"
      "port ?pc2 = fst (Atoi (Port r))" "javaHome ?pc2 = javaHome pc" "processId ?pc2 = pid"
    using noport pc1 by (simp_all add: adoptRecord_fields)
  have asyn: "prepareJvm E pc w
            = (None, pc1,
               emit (Println (ReturnSuccess (Uid r)))
                 (emit (Sleep 1000000000)
                   (emit (Go (invokeAttachingArgs pc1 (Port r) (Uid r))) w2)))"
    if "async pc" "\<not> nohup pc"
    using prepareJvm_resolved [OF target flags ok query pc1 w2] that res [of pc1 w2] noport pc1
    by (simp add: ManualPreparation_def Second_def)
  have sync: "prepareJvm E pc w = attachAndReport E pc1 (Some r) w2"
    if "\<not> (async pc \<and> \<not> nohup pc)"
    using prepareJvm_reuse [OF target flags ok query] that running noport pc1 w2 by auto
  have pc': "fst (snd (attachAndReport E pc1 (Some r) w2)) = ?pc2"
    by (simp add: attachAndReport_def Let_def split: prod.splits)
  obtain rest post where ev: "events_since w2 (snd (snd (attachAndReport E pc1 (Some r) w2)))
      = CallAttach (Itoa (port ?pc2)) (javaHome ?pc2) (processId ?pc2) # rest
          @ events_since (snd (attachAgent E ?pc2 w2))
              (correctPid E ?pc2 (Some r) (snd (attachAgent E ?pc2 w2)))
          @ CallHandlePrepareResponse (uid ?pc2) (fst (attachAgent E ?pc2 w2)) # post"
    using attachAndReport_events [OF refl, of w2 E pc1 "Some r"] by auto
  have split2: "events_since w (snd (snd (attachAndReport E pc1 (Some r) w2)))
          = CallCheckFlagValues (processName pc) (processId pc)
            # CallQueryRunningPre (PrepareJvmType E) (processName pc) pid
            # events_since w2 (snd (snd (attachAndReport E pc1 (Some r) w2)))"
    unfolding w2 by (rule events_since_after2 [OF attachAndReport_adds])
  have noins: "filter isInsert (events_since w (snd (snd (prepareJvm E pc w)))) = []"
  proof (cases "async pc \<and> \<not> nohup pc")
    case True
    then show ?thesis using asyn by (simp add: events_since_def w2)
  next
    case False
    have "filter isInsert (events_since w2 (snd (snd (attachAndReport E pc1 (Some r) w2)))) = []"
      by (rule adds_filter [OF attachAndReport_adds]) (rule afterResolution_not_insert)
    then show ?thesis using sync [OF False] split2 by simp
  qed
  have uids: "map Uid (store (snd (snd (prepareJvm E pc w)))) = map Uid (store w)"
    if "\<forall>v u x. map Uid (snd (updatePreparationPort E v u x)) = map Uid (store v)"
      and "\<forall>v u x. map Uid (snd (updatePreparationPid E v u x)) = map Uid (store v)"
      and "\<forall>v u x. map Uid (snd (snd (handlePrepareResponseWithoutExit E v u x)))
                      = map Uid (store v)"
  proof (cases "async pc \<and> \<not> nohup pc")
    case True
    then show ?thesis using asyn by (simp add: w2)
  next
    case False
    have "map Uid (store (snd (snd (attachAndReport E pc1 (Some r) w2)))) = map Uid (store w2)"
      by (rule attachAndReport_uids) (use that in simp_all)
    then show ?thesis using sync [OF False] by (simp add: w2)
  qed
  then have stays:
    "(\<forall>v u x. map Uid (snd (updatePreparationPort E v u x)) = map Uid (store v))
       \<and> (\<forall>v u x. map Uid (snd (updatePreparationPid E v u x)) = map Uid (store v))
       \<and> (\<forall>v u x. map Uid (snd (snd (handlePrepareResponseWithoutExit E v u x)))
                     = map Uid (store v))
      \<longrightarrow> map Uid (store (snd (snd (prepareJvm E pc w)))) = map Uid (store w)"
    by blast
  have reached: "\<exists>rest post.
                events_since w (snd (snd (attachAndReport E pc1 (Some r) w2)))
                  = CallCheckFlagValues (processName pc) (processId pc)
                    # CallQueryRunningPre (PrepareJvmType E) (processName pc) pid
                    # CallAttach (Itoa (fst (Atoi (Port r)))) (javaHome pc) pid
                    # rest
                    @ CallHandlePrepareResponse (if uid pc = '''' then Uid r else uid pc)
                        (fst (attachAgent E ?pc2 w2))
                    # post"
    unfolding split2 ev p2
    by (rule exI [of _ "rest @ events_since (snd (attachAgent E ?pc2 w2))
              (correctPid E ?pc2 (Some r) (snd (attachAgent E ?pc2 w2)))"], rule exI [of _ post])
       simp
  have "\<not> (async pc \<and> \<not> nohup pc) \<longrightarrow>
          uid (fst (snd (prepareJvm E pc w))) = (if uid pc = '''' then Uid r else uid pc)
          \<and> port (fst (snd (prepareJvm E pc w))) = fst (Atoi (Port r))
          \<and> (\<exists>rest post.
                events_since w (snd (snd (prepareJvm E pc w)))
                  = CallCheckFlagValues (processName pc) (processId pc)
                    # CallQueryRunningPre (PrepareJvmType E) (processName pc) pid
                    # CallAttach (Itoa (fst (Atoi (Port r)))) (javaHome pc) pid
                    # rest
                    @ CallHandlePrepareResponse (if uid pc = '''' then Uid r else uid pc)
                        (fst (attachAgent E (adoptRecord pc1 (Some r)) w2))
                    # post)"
    using reached sync pc' p2 by auto
  with noins man asyn stays show ?thesis by blast
qed

text \<open>
  On the stub: \<open>prepare jvm --process tomcat\<close> twice in a row, starting from an empty
  store. The first call inserts record \<open>U1\<close> on port \<open>34000\<close> and leaves it
  \<open>Running\<close>; the second call inserts nothing, attaches on the same port and answers
  with the same uid, and the store still holds that one record.
\<close>

theorem running_record_is_reused_witness:
  "fst (prepareJvm stub cmd0 world0) = None
   \<and> uid (fst (snd (prepareJvm stub cmd0 world0))) = ''U1''
   \<and> map Status (store world2) = [''Running'']
   \<and> fst (prepareJvm stub cmd0 world2) = None
   \<and> uid (fst (snd (prepareJvm stub cmd0 world2))) = ''U1''
   \<and> port (fst (snd (prepareJvm stub cmd0 world2))) = 34000
   \<and> filter isInsert (events_since world2 (snd (snd (prepareJvm stub cmd0 world2)))) = []
   \<and> events_since world2 (snd (snd (prepareJvm stub cmd0 world2)))
       = [CallCheckFlagValues ''tomcat'' '''',
          CallQueryRunningPre ''jvm'' ''tomcat'' ''100'',
          CallAttach ''34000'' '''' ''100'',
          CallHandlePrepareResponse ''U1'' (ReturnSuccess ''success''),
          Println (ReturnSuccess ''U1'')]
   \<and> map Uid (store (snd (snd (prepareJvm stub cmd0 world2)))) = map Uid (store world2)
   \<and> map Uid (store (snd (snd (prepareJvm stub cmd0 world2)))) = [''U1'']
   \<and> map Status (store (snd (snd (prepareJvm stub cmd0 world2)))) = [''Running'']"
proof -
  let ?r = "rec0\<lparr>CreateTime := ''t1'', UpdateTime := ''t1''\<rparr>"
  have w2: "world2 = \<lparr>store = [?r],
         trace = [CallCheckFlagValues ''tomcat'' '''',
                  CallQueryRunningPre ''jvm'' ''tomcat'' ''100'',
                  CallGetUnusedPort,
                  CallInsertPrepareRecord ''jvm'' ''tomcat'' ''34000'' ''100'',
                  CallAttach ''34000'' '''' ''100'',
                  CallHandlePrepareResponse ''U1'' (ReturnSuccess ''success''),
                  Println (ReturnSuccess ''U1'')]\<rparr>"
    by (simp add: world2_def first_call)
  have first: "fst (prepareJvm stub cmd0 world0) = None"
    "uid (fst (snd (prepareJvm stub cmd0 world0))) = ''U1''"
    "map Status (store world2) = [''Running'']"
    by (simp_all add: w2 first_call rec0_def)
  have t: "processName cmd0 \<noteq> '''' \<or> processId cmd0 \<noteq> ''''" by (simp add: cmd0_def)
  have f: "CheckFlagValues stub world2 (processName cmd0) (processId cmd0)
             = (''100'', ReturnSuccess ''success'')"
    by (simp add: stub_flags cmd0_def)
  have q: "QueryRunningPreByTypeAndProcess stub
             (emit (CallCheckFlagValues (processName cmd0) (processId cmd0)) world2)
             (PrepareJvmType stub) (processName cmd0) ''100'' = Inr (Some ?r)"
    by (simp add: w2 cmd0_def stub_def rec0_def)
  have r: "Status ?r = ''Running''" "Uid ?r = ''U1''" "fst (Atoi (Port ?r)) = 34000"
    by (simp_all add: rec0_def Atoi_def isNegative_def unsignedPart_def is_digit_def
        digit_val_def)
  have n: "port cmd0 = 0" "\<not> (async cmd0 \<and> \<not> nohup cmd0)" "uid cmd0 = ''''"
    by (simp_all add: cmd0_def)
  note reuse = running_record_is_reused [OF t f Success_ReturnSuccess q r(1) n(1) refl refl]
  have a: "filter isInsert (events_since world2 (snd (snd (prepareJvm stub cmd0 world2)))) = []"
    using reuse by (rule conjunct1)
  have b: "uid (fst (snd (prepareJvm stub cmd0 world2))) = ''U1''"
      "port (fst (snd (prepareJvm stub cmd0 world2))) = 34000"
    using reuse n r by simp_all
  have k: "\<forall>v u x. map Uid (snd (updatePreparationPort stub v u x)) = map Uid (store v)"
    "\<forall>v u x. map Uid (snd (updatePreparationPid stub v u x)) = map Uid (store v)"
    "\<forall>v u x. map Uid (snd (snd (handlePrepareResponseWithoutExit stub v u x)))
               = map Uid (store v)"
    by (simp_all add: stub_def o_def if_distrib [of Uid])
  have c: "map Uid (store (snd (snd (prepareJvm stub cmd0 world2)))) = map Uid (store world2)"
    using reuse k by blast
  have second: "fst (prepareJvm stub cmd0 world2) = None"
    "events_since world2 (snd (snd (prepareJvm stub cmd0 world2)))
       = [CallCheckFlagValues ''tomcat'' '''',
          CallQueryRunningPre ''jvm'' ''tomcat'' ''100'',
          CallAttach ''34000'' '''' ''100'',
          CallHandlePrepareResponse ''U1'' (ReturnSuccess ''success''),
          Println (ReturnSuccess ''U1'')]"
    "map Uid (store (snd (snd (prepareJvm stub cmd0 world2)))) = [''U1'']"
    "map Status (store (snd (snd (prepareJvm stub cmd0 world2)))) = [''Running'']"
    unfolding w2 by (simp_all add: run_simps stub_simps)
  from first a b c second show ?thesis by blast
qed

text \<open>
  Claim C1 as it is stated does not hold in its last part: a second synchronous call
  attaches again, and the response handler stores what came of it. On the stub with an
  agent that cannot be reached, the second call inserts nothing and works under uid
  \<open>U1\<close>, yet it leaves record \<open>U1\<close> with status \<open>Error\<close>: no record of the target is
  \<open>Running\<close> any more.
\<close>

theorem failed_reattach_leaves_no_running_record_counterexample:
  "QueryRunningPreByTypeAndProcess stub_down
      (emit (CallCheckFlagValues ''tomcat'' '''') world1) ''jvm'' ''tomcat'' ''100''
     = Inr (Some rec0)
   \<and> Status rec0 = ''Running'' \<and> Uid rec0 = ''U1''
   \<and> port cmd0 = 0
   \<and> filter isInsert (events_since world1 (snd (snd (prepareJvm stub_down cmd0 world1)))) = []
   \<and> filter isAttach (events_since world1 (snd (snd (prepareJvm stub_down cmd0 world1))))
       = [CallAttach ''34000'' '''' ''100'']
   \<and> uid (fst (snd (prepareJvm stub_down cmd0 world1))) = ''U1''
   \<and> map Uid (store (snd (snd (prepareJvm stub_down cmd0 world1)))) = [''U1'']
   \<and> map Status (store (snd (snd (prepareJvm stub_down cmd0 world1)))) = [''Error'']
   \<and> filter (\<lambda>r. Status r = ''Running'') (store (snd (snd (prepareJvm stub_down cmd0 world1)))) = []"
  by (simp add: run_simps stub_simps stub_down_def)

text \<open>
  Claim C2, as amended. The target has a record with status \<open>Running\<close>, the call is
  made without the \<open>nohup\<close> marker, and it passes a port other than 0 whose decimal
  form differs from the port of the record. Then the call returns the
  \<open>IllegalParameters\<close> response that names the stored port; it has only checked the
  flags and queried the store, so the store is as it was, nothing is written and no
  attach is attempted.
\<close>

theorem port_conflict_is_rejected:
  assumes target: "processName pc \<noteq> '''' \<or> processId pc \<noteq> ''''"
    and flags: "CheckFlagValues E w (processName pc) (processId pc) = (pid, resp)"
    and ok: "Success resp"
    and query: "QueryRunningPreByTypeAndProcess E
                  (emit (CallCheckFlagValues (processName pc) (processId pc)) w)
                  (PrepareJvmType E) (processName pc) pid = Inr (Some r)"
    and running: "Status r = ''Running''"
    and manual: "\<not> nohup pc"
    and requested: "port pc \<noteq> 0"
    and differs: "Itoa (port pc) \<noteq> Port r"
  shows "prepareJvm E pc w
           = (Some (ReturnFail IllegalParameters
                (''the process has been executed prepare command, if you wan't re-prepare, ''
                 @ ''please append or modify the --port '' @ Port r
                 @ '' argument in prepare command for retry'')),
              pc\<lparr>processId := pid\<rparr>,
              emit (CallQueryRunningPre (PrepareJvmType E) (processName pc) pid)
                (emit (CallCheckFlagValues (processName pc) (processId pc)) w))
    \<and> store (snd (snd (prepareJvm E pc w))) = store w
    \<and> filter isStoreWrite (events_since w (snd (snd (prepareJvm E pc w)))) = []
    \<and> filter isAttach (events_since w (snd (snd (prepareJvm E pc w)))) = []"
proof -
  have run: "prepareJvm E pc w
           = (Some (ReturnFail IllegalParameters
                (''the process has been executed prepare command, if you wan't re-prepare, ''
                 @ ''please append or modify the --port '' @ Port r
                 @ '' argument in prepare command for retry'')),
              pc\<lparr>processId := pid\<rparr>,
              emit (CallQueryRunningPre (PrepareJvmType E) (processName pc) pid)
                (emit (CallCheckFlagValues (processName pc) (processId pc)) w))"
    using prepareJvm_resolved [OF target flags ok query refl refl] running manual requested differs
    by (simp add: ManualPreparation_def resolveRecord_def)
  show ?thesis unfolding run by (simp add: events_since_def)
qed

theorem port_conflict_is_rejected_witness:
  "fst (prepareJvm stub (cmd0\<lparr>port := 9090\<rparr>) world1)
     = Some (ReturnFail IllegalParameters
         (''the process has been executed prepare command, if you wan't re-prepare, ''
          @ ''please append or modify the --port 34000 argument in prepare command for retry''))
   \<and> store (snd (snd (prepareJvm stub (cmd0\<lparr>port := 9090\<rparr>) world1))) = [rec0]
   \<and> events_since world1 (snd (snd (prepareJvm stub (cmd0\<lparr>port := 9090\<rparr>) world1)))
       = [CallCheckFlagValues ''tomcat'' '''', CallQueryRunningPre ''jvm'' ''tomcat'' ''100'']"
proof -
  let ?pc = "cmd0\<lparr>port := 9090\<rparr>"
  have t: "processName ?pc \<noteq> '''' \<or> processId ?pc \<noteq> ''''" by (simp add: cmd0_def)
  have f: "CheckFlagValues stub world1 (processName ?pc) (processId ?pc)
             = (''100'', ReturnSuccess ''success'')"
    by (simp add: stub_flags cmd0_def)
  have q: "QueryRunningPreByTypeAndProcess stub
             (emit (CallCheckFlagValues (processName ?pc) (processId ?pc)) world1)
             (PrepareJvmType stub) (processName ?pc) ''100'' = Inr (Some rec0)"
    by (simp add: cmd0_def stub_query_world1 world1_def)
  have r: "Status rec0 = ''Running''" "Port rec0 = ''34000''" by (simp_all add: rec0_def)
  have m: "\<not> nohup ?pc" "port ?pc \<noteq> 0" by (simp_all add: cmd0_def)
  have d: "Itoa (port ?pc) \<noteq> Port rec0"
    by (simp add: cmd0_def rec0_def Itoa_def utoa.simps)
  from port_conflict_is_rejected [OF t f Success_ReturnSuccess q r(1) m d]
  show ?thesis
    by (simp add: r stub_type cmd0_def world1_def events_since_def emit_def)
qed

text \<open>
  Claim C2 as it is stated does not hold for a call that carries the \<open>nohup\<close> marker:
  \<^verbatim>\<open>if !pc.nohup\<close> guards \<open>ManualPreparation\<close>, so the ports are never compared. On
  the stub, with record \<open>U1\<close> \<open>Running\<close> on port \<open>34000\<close>, the call with \<open>--nohup\<close>
  and \<open>--port 9090\<close> returns no error, attaches on port \<open>9090\<close> first, and writes to
  the store.
\<close>

theorem port_conflict_with_nohup_counterexample:
  "nohup (cmd0\<lparr>port := 9090, nohup := True\<rparr>)
   \<and> QueryRunningPreByTypeAndProcess stub
        (emit (CallCheckFlagValues ''tomcat'' '''') world1) ''jvm'' ''tomcat'' ''100''
       = Inr (Some rec0)
   \<and> Status rec0 = ''Running''
   \<and> port (cmd0\<lparr>port := 9090, nohup := True\<rparr>) = 9090
   \<and> Itoa 9090 = ''9090'' \<and> Port rec0 = ''34000''
   \<and> fst (prepareJvm stub (cmd0\<lparr>port := 9090, nohup := True\<rparr>) world1) = None
   \<and> filter isAttach
        (events_since world1 (snd (snd (prepareJvm stub (cmd0\<lparr>port := 9090, nohup := True\<rparr>) world1))))
       = [CallAttach ''9090'' '''' ''100'', CallAttach ''34000'' '''' ''100'']
   \<and> filter isStoreWrite
        (events_since world1 (snd (snd (prepareJvm stub (cmd0\<lparr>port := 9090, nohup := True\<rparr>) world1))))
       = [CallUpdatePreparationPort ''U1'' ''34000'',
          CallHandlePrepareResponse ''U1'' (ReturnSuccess ''success'')]"
  by (simp add: run_simps stub_simps)

text \<open>
  Claim C6. With \<open>async\<close> set and \<open>nohup\<close> not set, once a record is resolved (found
  \<open>Running\<close>, or inserted), the call starts the goroutine of the re-invocation with the
  port and uid of the record, sleeps for \<open>time.Second\<close>, prints
  \<open>ReturnSuccess\<close> of the uid of the record, and returns \<open>nil\<close>: the run contains no
  call of \<open>Attach\<close> and prints nothing else.
\<close>

theorem async_short_circuit:
  assumes target: "processName pc \<noteq> '''' \<or> processId pc \<noteq> ''''"
    and flags: "CheckFlagValues E w (processName pc) (processId pc) = (pid, resp)"
    and ok: "Success resp"
    and query: "QueryRunningPreByTypeAndProcess E
                  (emit (CallCheckFlagValues (processName pc) (processId pc)) w)
                  (PrepareJvmType E) (processName pc) pid = Inr found"
    and pc1: "pc1 = pc\<lparr>processId := pid\<rparr>"
    and w2: "w2 = emit (CallQueryRunningPre (PrepareJvmType E) (processName pc) pid)
                    (emit (CallCheckFlagValues (processName pc) (processId pc)) w)"
    and mode: "async pc" "\<not> nohup pc"
    and resolved: "resolveRecord E pc1 found w2 = (Inr r, w3)"
  shows "prepareJvm E pc w
           = (None, pc1,
              emit (Println (ReturnSuccess (Uid r)))
                (emit (Sleep 1000000000)
                  (emit (Go (invokeAttachingArgs pc1 (Port r) (Uid r))) w3)))
    \<and> filter isAttach (events_since w (snd (snd (prepareJvm E pc w)))) = []
    \<and> filter isPrintln (events_since w (snd (snd (prepareJvm E pc w))))
        = [Println (ReturnSuccess (Uid r))]"
proof -
  have run: "prepareJvm E pc w
           = (None, pc1,
              emit (Println (ReturnSuccess (Uid r)))
                (emit (Sleep 1000000000)
                  (emit (Go (invokeAttachingArgs pc1 (Port r) (Uid r))) w3)))"
    using prepareJvm_resolved [OF target flags ok query pc1 w2] mode resolved pc1
    by (simp add: ManualPreparation_def Second_def)
  have "adds inResolve w2 w3" using resolveRecord_adds [of w2 E pc1 found] resolved by simp
  then obtain evs where evs: "trace w3 = trace w2 @ evs" "list_all inResolve evs"
    by (auto simp: adds_iff)
  have f: "filter isAttach evs = []" "filter isPrintln evs = []"
    using evs(2)
    by (auto simp: list_all_iff filter_empty_conv dest: inResolve_not_attach inResolve_not_println)
  show ?thesis
    unfolding run using evs(1) f by (simp add: events_since_def w2)
qed

text \<open>On the stub: a first call \<open>prepare jvm --process tomcat --async\<close>, on an empty store.\<close>

theorem async_short_circuit_witness:
  "prepareJvm stub (cmd0\<lparr>async := True\<rparr>) world0
     = (None, cmd0\<lparr>async := True, processId := ''100''\<rparr>,
        \<lparr>store = [\<lparr>Uid = ''U1'', ProgramType = ''jvm'', Process = ''tomcat'', Port = ''34000'',
                    Pid = ''100'', Status = ''Created'', Error = '''',
                    CreateTime = ''t1'', UpdateTime = ''t1''\<rparr>],
         trace = [CallCheckFlagValues ''tomcat'' '''',
                  CallQueryRunningPre ''jvm'' ''tomcat'' ''100'',
                  CallGetUnusedPort,
                  CallInsertPrepareRecord ''jvm'' ''tomcat'' ''34000'' ''100'',
                  Go ''prepare jvm --uid U1 --nohup --port 34000 -p tomcat --pid 100 --async'',
                  Sleep 1000000000,
                  Println (ReturnSuccess ''U1'')]\<rparr>)
   \<and> filter isAttach (events_since world0 (snd (snd (prepareJvm stub (cmd0\<lparr>async := True\<rparr>) world0)))) = []"
proof -
  let ?pc = "cmd0\<lparr>async := True\<rparr>"
  let ?pc1 = "?pc\<lparr>processId := ''100''\<rparr>"
  let ?w2 = "emit (CallQueryRunningPre (PrepareJvmType stub) (processName ?pc) ''100'')
                    (emit (CallCheckFlagValues (processName ?pc) (processId ?pc)) world0)"
  let ?r = "\<lparr>Uid = ''U1'', ProgramType = ''jvm'', Process = ''tomcat'', Port = ''34000'',
                    Pid = ''100'', Status = ''Created'', Error = '''',
                    CreateTime = ''t1'', UpdateTime = ''t1''\<rparr>"
  let ?w3 = "emit (CallInsertPrepareRecord ''jvm'' ''tomcat'' ''34000'' ''100'')
               ((emit CallGetUnusedPort ?w2)\<lparr>store := [?r]\<rparr>)"
  have t: "processName ?pc \<noteq> '''' \<or> processId ?pc \<noteq> ''''" by (simp add: cmd0_def)
  have f: "CheckFlagValues stub world0 (processName ?pc) (processId ?pc)
             = (''100'', ReturnSuccess ''success'')"
    by (simp add: stub_def cmd0_def)
  have ok: "Success (ReturnSuccess ''success'')" by (simp add: ReturnSuccess_def)
  have q: "QueryRunningPreByTypeAndProcess stub
             (emit (CallCheckFlagValues (processName ?pc) (processId ?pc)) world0)
             (PrepareJvmType stub) (processName ?pc) ''100'' = Inr None"
    by (simp add: stub_def world0_def)
  have m: "async ?pc" "\<not> nohup ?pc" by (simp_all add: cmd0_def)
  have r: "resolveRecord stub ?pc1 None ?w2 = (Inr ?r, ?w3)"
    by (simp add: resolveRecord_def getAndCacheSandboxPort_def stub_def cmd0_def world0_def
        Itoa_def utoa.simps Let_def emit_def)
  have ty: "PrepareJvmType stub = ''jvm''" by (simp add: stub_def)
  from async_short_circuit [OF t f ok q refl refl m r]
  show ?thesis
    by (simp add: ty cmd0_def world0_def emit_def invokeAttachingArgs_def events_since_def)
qed

section \<open>The asynchronous dispatcher\<close>

text \<open>
  Claim C7. The command line that \<open>invokeAttaching\<close> builds starts with
  \<open>prepare jvm --uid\<close>, the uid and \<open>--nohup\<close>, whatever the other flags are, and it
  is the one command line that \<open>invokeAttaching\<close> runs; and a run of \<open>prepareJvm\<close>
  with \<open>nohup\<close> set never asks for a port, never inserts a record, never starts the
  goroutine of the re-invocation and never sleeps: it skips \<open>ManualPreparation\<close>
  altogether.
\<close>

theorem reinvocation_never_spawns:
  "prefix (''prepare jvm --uid '' @ u @ '' --nohup'') (invokeAttachingArgs pc p u)
   \<and> (\<exists>l. trace (invokeAttaching E pc p u w)
             = trace w @ [CallRun (invokeAttachingArgs pc p u), l])
   \<and> (nohup pc' \<longrightarrow>
        filter isCoordinator (events_since w (snd (snd (prepareJvm E pc' w)))) = [])"
proof (intro conjI)
  show "prefix (''prepare jvm --uid '' @ u @ '' --nohup'') (invokeAttachingArgs pc p u)"
    by (simp add: invokeAttachingArgs_def Let_def prefix_def)
next
  show "\<exists>l. trace (invokeAttaching E pc p u w)
          = trace w @ [CallRun (invokeAttachingArgs pc p u), l]"
    by (simp add: invokeAttaching_def Let_def)
next
  show "nohup pc' \<longrightarrow> filter isCoordinator (events_since w (snd (snd (prepareJvm E pc' w)))) = []"
    by (auto dest!: nohup_adds [of pc' w E] intro: adds_filter)
qed

text \<open>
  On the stub: the command line built for record \<open>U1\<close>, and the run of the command that
  this line describes.
\<close>

theorem reinvocation_never_spawns_witness:
  "invokeAttachingArgs (cmd0\<lparr>processId := ''100'', async := True\<rparr>) ''34000'' ''U1''
     = ''prepare jvm --uid U1 --nohup --port 34000 -p tomcat --pid 100 --async''
   \<and> nohup (cmd0\<lparr>uid := ''U1'', nohup := True, port := 34000, processId := ''100'',
                  async := True\<rparr>)
   \<and> filter isCoordinator
         (events_since world1
            (snd (snd (prepareJvm stub
               (cmd0\<lparr>uid := ''U1'', nohup := True, port := 34000, processId := ''100'',
                      async := True\<rparr>) world1)))) = []"
  using reinvocation_never_spawns
          [where u = "''U1''" and pc = "cmd0\<lparr>processId := ''100'', async := True\<rparr>"
             and p = "''34000''" and w = world1 and E = stub
             and pc' = "cmd0\<lparr>uid := ''U1'', nohup := True, port := 34000,
                              processId := ''100'', async := True\<rparr>"]
  by (simp add: invokeAttachingArgs_def cmd0_def)

section \<open>The attach retry engine\<close>

text \<open>
  Claim C3. When the first attach fails with a message that contains
  \<open>connection refused\<close> and a non-empty user name, and the port lookup in the sandbox
  token succeeds, \<open>attachAgent\<close> calls \<open>Attach\<close> exactly twice, the second time with
  the port that was looked up, and returns the response of that second call. If the
  second call succeeds, the one write to the store is
  \<open>updatePreparationPort\<close> for the command's uid with that port, and the store is
  left as that update leaves it; if it fails, nothing is written.
\<close>

theorem attachAgent_retries_once:
  assumes first: "Attach E w (Itoa (port pc)) (javaHome pc) (processId pc) = (r1, u1)"
    and failed: "\<not> Success r1"
    and ident: "u1 \<noteq> ''''"
    and refused: "Contains (Err r1) ''connection refused''"
    and w1: "w1 = emit (CallAttach (Itoa (port pc)) (javaHome pc) (processId pc)) w"
    and lookup: "CheckPortFromSandboxToken E w1 u1 = Inr alt"
    and w2: "w2 = emit (Infof ''use %s port to retry'' [S alt])
                    (emit (CallCheckPortFromSandboxToken u1) w1)"
    and retry: "Attach E w2 alt (javaHome pc) (processId pc) = (r2, u2)"
    and w3: "w3 = emit (CallAttach alt (javaHome pc) (processId pc)) w2"
  shows "fst (attachAgent E pc w) = r2
    \<and> filter isAttach (events_since w (snd (attachAgent E pc w)))
        = [CallAttach (Itoa (port pc)) (javaHome pc) (processId pc),
           CallAttach alt (javaHome pc) (processId pc)]
    \<and> (Success r2 \<longrightarrow>
          filter isStoreWrite (events_since w (snd (attachAgent E pc w)))
            = [CallUpdatePreparationPort (uid pc) alt]
          \<and> store (snd (attachAgent E pc w)) = snd (updatePreparationPort E w3 (uid pc) alt))
    \<and> (\<not> Success r2 \<longrightarrow>
          filter isStoreWrite (events_since w (snd (attachAgent E pc w))) = []
          \<and> store (snd (attachAgent E pc w)) = store w)"
  using assms
  by (auto simp: attachAgent_def Let_def events_since_def split: prod.splits option.splits)

text \<open>
  On the stub: the command asks for port \<open>35000\<close>, the agent listens on \<open>34000\<close>;
  after the run the record carries port \<open>34000\<close>.
\<close>

theorem attachAgent_retries_once_witness:
  "fst (attachAgent stub cmd3 world1) = ReturnSuccess ''success''
   \<and> filter isAttach (events_since world1 (snd (attachAgent stub cmd3 world1)))
       = [CallAttach ''35000'' '''' ''100'', CallAttach ''34000'' '''' ''100'']
   \<and> filter isStoreWrite (events_since world1 (snd (attachAgent stub cmd3 world1)))
       = [CallUpdatePreparationPort ''U1'' ''34000'']
   \<and> map Port (store (snd (attachAgent stub cmd3 world1))) = [''34000'']"
proof -
  let ?w1 = "emit (CallAttach ''35000'' '''' ''100'') world1"
  let ?w2 = "emit (Infof ''use %s port to retry'' [S ''34000''])
               (emit (CallCheckPortFromSandboxToken ''admin'') ?w1)"
  let ?w3 = "emit (CallAttach ''34000'' '''' ''100'') ?w2"
  let ?r1 = "ReturnFail (OtherCode 604) ''attach failed: connection refused''"
  have p: "Itoa (port cmd3) = ''35000''" "javaHome cmd3 = ''''" "processId cmd3 = ''100''"
    "uid cmd3 = ''U1''"
    by (simp_all add: cmd3_def stub_simps)
  have a: "Attach stub world1 (Itoa (port cmd3)) (javaHome cmd3) (processId cmd3) = (?r1, ''admin'')"
    by (simp add: p) (simp add: stub_def)
  have b: "\<not> Success ?r1" "''admin'' \<noteq> ''''" "Contains (Err ?r1) ''connection refused''"
    by (simp_all add: ReturnFail_def)
  have c: "CheckPortFromSandboxToken stub ?w1 ''admin'' = Inr ''34000''"
    by (simp add: stub_def)
  have d: "Attach stub ?w2 ''34000'' (javaHome cmd3) (processId cmd3) = (ReturnSuccess ''success'', '''')"
    by (simp add: stub_def)
  have e: "snd (updatePreparationPort stub ?w3 ''U1'' ''34000'') = [rec0\<lparr>Port := ''34000''\<rparr>]"
    by (simp add: stub_def world1_def rec0_def)
  have ok: "Success (ReturnSuccess ''success'')" by (simp add: ReturnSuccess_def)
  from attachAgent_retries_once [OF a b(1) b(2) b(3) _ _ _ _ refl, of ?w1 "''34000''" ?w2 "ReturnSuccess ''success''" "''''"]
  show ?thesis using c d e ok by (simp add: p)
qed

text \<open>
  Claim C4. When the first attach fails and the user name is empty, or the message
  does not contain \<open>connection refused\<close>, or the port lookup returns an error,
  \<open>attachAgent\<close> calls \<open>Attach\<close> once only, returns the response of that call as it
  is, and writes nothing to the store.
\<close>

theorem attachAgent_no_recovery:
  assumes first: "Attach E w (Itoa (port pc)) (javaHome pc) (processId pc) = (r1, u1)"
    and failed: "\<not> Success r1"
    and w1: "w1 = emit (CallAttach (Itoa (port pc)) (javaHome pc) (processId pc)) w"
    and norec: "u1 = '''' \<or> \<not> Contains (Err r1) ''connection refused''
                \<or> (\<exists>err. CheckPortFromSandboxToken E w1 u1 = Inl err)"
  shows "fst (attachAgent E pc w) = r1
    \<and> filter isAttach (events_since w (snd (attachAgent E pc w)))
        = [CallAttach (Itoa (port pc)) (javaHome pc) (processId pc)]
    \<and> filter isStoreWrite (events_since w (snd (attachAgent E pc w))) = []
    \<and> store (snd (attachAgent E pc w)) = store w"
  using assms
  by (auto simp: attachAgent_def Let_def events_since_def split: prod.splits option.splits)

theorem attachAgent_no_recovery_witness:
  "fst (attachAgent stub_no_token cmd3 world1)
     = ReturnFail (OtherCode 604) ''attach failed: connection refused''
   \<and> filter isAttach (events_since world1 (snd (attachAgent stub_no_token cmd3 world1)))
       = [CallAttach ''35000'' '''' ''100'']
   \<and> store (snd (attachAgent stub_no_token cmd3 world1)) = [rec0]"
proof -
  let ?r1 = "ReturnFail (OtherCode 604) ''attach failed: connection refused''"
  have p: "Itoa (port cmd3) = ''35000''" "javaHome cmd3 = ''''" "processId cmd3 = ''100''"
    by (simp_all add: cmd3_def stub_simps)
  have a: "Attach stub_no_token world1 (Itoa (port cmd3)) (javaHome cmd3) (processId cmd3)
             = (?r1, ''admin'')"
    by (simp add: p) (simp add: stub_no_token_def stub_def)
  have b: "\<not> Success ?r1" by (simp add: ReturnFail_def)
  have c: "\<exists>err. CheckPortFromSandboxToken stub_no_token
                    (emit (CallAttach (Itoa (port cmd3)) (javaHome cmd3) (processId cmd3)) world1)
                    ''admin'' = Inl err"
    by (simp add: stub_no_token_def)
  from attachAgent_no_recovery [OF a b refl disjI2 [OF disjI2 [OF c]]]
  show ?thesis by (simp add: p world1_def)
qed

text \<open>
  Claim C5. When the retry succeeds and \<open>updatePreparationPort\<close> returns an error,
  \<open>attachAgent\<close> logs one warning with that error and still returns the successful
  response of the retry.
\<close>

theorem port_update_failure_is_logged_only:
  assumes first: "Attach E w (Itoa (port pc)) (javaHome pc) (processId pc) = (r1, u1)"
    and failed: "\<not> Success r1"
    and ident: "u1 \<noteq> ''''"
    and refused: "Contains (Err r1) ''connection refused''"
    and w1: "w1 = emit (CallAttach (Itoa (port pc)) (javaHome pc) (processId pc)) w"
    and lookup: "CheckPortFromSandboxToken E w1 u1 = Inr alt"
    and w2: "w2 = emit (Infof ''use %s port to retry'' [S alt])
                    (emit (CallCheckPortFromSandboxToken u1) w1)"
    and retry: "Attach E w2 alt (javaHome pc) (processId pc) = (r2, u2)"
    and succeeded: "Success r2"
    and w3: "w3 = emit (CallAttach alt (javaHome pc) (processId pc)) w2"
    and update: "updatePreparationPort E w3 (uid pc) alt = (Some err, s)"
  shows "attachAgent E pc w
           = (r2, emit (Warningf ''update preparation port failed, %v'' [S err])
                    (emit (CallUpdatePreparationPort (uid pc) alt) (w3\<lparr>store := s\<rparr>)))
    \<and> Success (fst (attachAgent E pc w))"
  using assms
  by (auto simp: attachAgent_def Let_def split: prod.splits option.splits)

theorem port_update_failure_is_logged_only_witness:
  "fst (attachAgent stub_locked cmd3 world1) = ReturnSuccess ''success''
   \<and> last (trace (snd (attachAgent stub_locked cmd3 world1)))
       = Warningf ''update preparation port failed, %v'' [S ''database is locked'']
   \<and> store (snd (attachAgent stub_locked cmd3 world1)) = [rec0]"
proof -
  let ?w1 = "emit (CallAttach ''35000'' '''' ''100'') world1"
  let ?w2 = "emit (Infof ''use %s port to retry'' [S ''34000''])
               (emit (CallCheckPortFromSandboxToken ''admin'') ?w1)"
  let ?w3 = "emit (CallAttach ''34000'' '''' ''100'') ?w2"
  let ?r1 = "ReturnFail (OtherCode 604) ''attach failed: connection refused''"
  have p: "Itoa (port cmd3) = ''35000''" "javaHome cmd3 = ''''" "processId cmd3 = ''100''"
    "uid cmd3 = ''U1''"
    by (simp_all add: cmd3_def stub_simps)
  have a: "Attach stub_locked world1 (Itoa (port cmd3)) (javaHome cmd3) (processId cmd3)
             = (?r1, ''admin'')"
    by (simp add: p) (simp add: stub_locked_def stub_def)
  have b: "\<not> Success ?r1" "''admin'' \<noteq> ''''" "Contains (Err ?r1) ''connection refused''"
    by (simp_all add: ReturnFail_def)
  have c: "CheckPortFromSandboxToken stub_locked ?w1 ''admin'' = Inr ''34000''"
    by (simp add: stub_locked_def stub_def)
  have d: "Attach stub_locked ?w2 ''34000'' (javaHome cmd3) (processId cmd3)
             = (ReturnSuccess ''success'', '''')"
    by (simp add: stub_locked_def stub_def)
  have ok: "Success (ReturnSuccess ''success'')" by (simp add: ReturnSuccess_def)
  have e: "updatePreparationPort stub_locked ?w3 (uid cmd3) ''34000''
             = (Some ''database is locked'', [rec0])"
    by (simp add: stub_locked_def world1_def)
  from port_update_failure_is_logged_only
         [OF a b(1) b(2) b(3) _ _ _ _ ok _ _,
          of ?w1 "''34000''" ?w2 "''''" ?w3 "''database is locked''" "[rec0]"]
  show ?thesis using c d e by (simp add: p)
qed

text \<open>
  Claim C8, as amended. The query finds a record whose pid differs from the resolved
  pid, and the call goes on to the attach step with that record: \<open>nohup\<close> is set, or
  the call is synchronous, the record is \<open>Running\<close> and the port does not conflict.
  Then the run calls \<open>updatePreparationPid\<close> exactly once, with the resolved pid, after
  the last call of \<open>Attach\<close> and whatever the attach returned. The uid it passes is the
  uid of the command: the uid of the record when the caller gave none, the caller's
  otherwise.
\<close>

theorem pid_is_corrected_after_attach:
  assumes target: "processName pc \<noteq> '''' \<or> processId pc \<noteq> ''''"
    and flags: "CheckFlagValues E w (processName pc) (processId pc) = (pid, resp)"
    and ok: "Success resp"
    and query: "QueryRunningPreByTypeAndProcess E
                  (emit (CallCheckFlagValues (processName pc) (processId pc)) w)
                  (PrepareJvmType E) (processName pc) pid = Inr (Some r)"
    and path: "nohup pc \<or> (\<not> async pc \<and> Status r = ''Running''
                 \<and> (port pc = 0 \<or> Itoa (port pc) = Port r))"
    and differs: "Pid r \<noteq> pid"
  shows "\<exists>pre post.
      events_since w (snd (snd (prepareJvm E pc w)))
        = pre @ CallUpdatePreparationPid (if uid pc = '''' then Uid r else uid pc) pid # post
      \<and> filter isAttach pre \<noteq> [] \<and> filter isAttach post = []
      \<and> filter isUpdatePid pre = [] \<and> filter isUpdatePid post = []"
proof -
  let ?pc1 = "pc\<lparr>processId := pid\<rparr>"
  let ?w2 = "emit (CallQueryRunningPre (PrepareJvmType E) (processName pc) pid)
               (emit (CallCheckFlagValues (processName pc) (processId pc)) w)"
  let ?pc2 = "adoptRecord ?pc1 (Some r)"
  let ?wA = "snd (attachAgent E ?pc2 ?w2)"
  let ?u = "if uid pc = '''' then Uid r else uid pc"
  have run: "prepareJvm E pc w = attachAndReport E ?pc1 (Some r) ?w2"
    by (rule prepareJvm_reuse [OF target flags ok query path])
  have p2: "uid ?pc2 = ?u" "processId ?pc2 = pid"
    by (simp_all add: adoptRecord_fields)
  have cp: "events_since ?wA (correctPid E ?pc2 (Some r) ?wA) = [CallUpdatePreparationPid ?u pid]"
    using differs by (simp add: correctPid_def p2 events_since_def)
  obtain rest post where ev: "events_since ?w2 (snd (snd (attachAndReport E ?pc1 (Some r) ?w2)))
      = CallAttach (Itoa (port ?pc2)) (javaHome ?pc2) (processId ?pc2) # rest
          @ events_since ?wA (correctPid E ?pc2 (Some r) ?wA)
          @ CallHandlePrepareResponse (uid ?pc2) (fst (attachAgent E ?pc2 ?w2)) # post"
      and f: "filter isUpdatePid rest = []" "filter isAttach post = []" "filter isUpdatePid post = []"
    using attachAndReport_events [OF refl, of ?w2 E ?pc1 "Some r"] by auto
  have split2: "events_since w (snd (snd (attachAndReport E ?pc1 (Some r) ?w2)))
          = CallCheckFlagValues (processName pc) (processId pc)
            # CallQueryRunningPre (PrepareJvmType E) (processName pc) pid
            # events_since ?w2 (snd (snd (attachAndReport E ?pc1 (Some r) ?w2)))"
    by (rule events_since_after2 [OF attachAndReport_adds])
  let ?pre = "CallCheckFlagValues (processName pc) (processId pc)
            # CallQueryRunningPre (PrepareJvmType E) (processName pc) pid
            # CallAttach (Itoa (port ?pc2)) (javaHome ?pc2) (processId ?pc2) # rest"
  let ?post = "CallHandlePrepareResponse (uid ?pc2) (fst (attachAgent E ?pc2 ?w2)) # post"
  have "events_since w (snd (snd (prepareJvm E pc w)))
          = ?pre @ CallUpdatePreparationPid ?u pid # ?post"
    unfolding run split2 ev cp by simp
  moreover have "filter isAttach ?pre \<noteq> []" "filter isAttach ?post = []"
    "filter isUpdatePid ?pre = []" "filter isUpdatePid ?post = []"
    using f by simp_all
  ultimately show ?thesis by blast
qed

text \<open>On the stub: \<open>tomcat\<close> now runs as pid \<open>200\<close>, record \<open>U1\<close> still says \<open>100\<close>.\<close>

theorem pid_is_corrected_after_attach_witness:
  "events_since world1 (snd (snd (prepareJvm stub (cmd0\<lparr>processId := ''200''\<rparr>) world1)))
     = [CallCheckFlagValues ''tomcat'' ''200'',
        CallQueryRunningPre ''jvm'' ''tomcat'' ''200'',
        CallAttach ''34000'' '''' ''200'',
        CallUpdatePreparationPid ''U1'' ''200'',
        CallHandlePrepareResponse ''U1'' (ReturnSuccess ''success''),
        Println (ReturnSuccess ''U1'')]
   \<and> map Pid (store (snd (snd (prepareJvm stub (cmd0\<lparr>processId := ''200''\<rparr>) world1))))
       = [''200'']
   \<and> (\<exists>pre post.
        events_since world1 (snd (snd (prepareJvm stub (cmd0\<lparr>processId := ''200''\<rparr>) world1)))
          = pre @ CallUpdatePreparationPid ''U1'' ''200'' # post
        \<and> filter isAttach pre \<noteq> [] \<and> filter isAttach post = []
        \<and> filter isUpdatePid pre = [] \<and> filter isUpdatePid post = [])"
proof -
  let ?pc = "cmd0\<lparr>processId := ''200''\<rparr>"
  have t: "processName ?pc \<noteq> '''' \<or> processId ?pc \<noteq> ''''" by (simp add: cmd0_def)
  have f: "CheckFlagValues stub world1 (processName ?pc) (processId ?pc)
             = (''200'', ReturnSuccess ''success'')"
    by (simp add: stub_flags cmd0_def)
  have q: "QueryRunningPreByTypeAndProcess stub
             (emit (CallCheckFlagValues (processName ?pc) (processId ?pc)) world1)
             (PrepareJvmType stub) (processName ?pc) ''200'' = Inr (Some rec0)"
    by (simp add: cmd0_def stub_query_world1 world1_def)
  have p: "nohup ?pc \<or> (\<not> async ?pc \<and> Status rec0 = ''Running''
                 \<and> (port ?pc = 0 \<or> Itoa (port ?pc) = Port rec0))"
    by (simp add: cmd0_def rec0_def)
  have d: "Pid rec0 \<noteq> ''200''" by (simp add: rec0_def)
  have u: "(if uid ?pc = '''' then Uid rec0 else uid ?pc) = ''U1''"
    by (simp add: cmd0_def rec0_def)
  have run: "events_since world1 (snd (snd (prepareJvm stub ?pc world1)))
     = [CallCheckFlagValues ''tomcat'' ''200'',
        CallQueryRunningPre ''jvm'' ''tomcat'' ''200'',
        CallAttach ''34000'' '''' ''200'',
        CallUpdatePreparationPid ''U1'' ''200'',
        CallHandlePrepareResponse ''U1'' (ReturnSuccess ''success''),
        Println (ReturnSuccess ''U1'')]"
    "map Pid (store (snd (snd (prepareJvm stub ?pc world1)))) = [''200'']"
    by (simp_all add: run_simps stub_simps)
  from pid_is_corrected_after_attach [OF t f Success_ReturnSuccess q p d, unfolded u] run
  show ?thesis by blast
qed

text \<open>
  Claim C8 as it is stated does not hold when the caller passes a uid of its own:
  \<^verbatim>\<open>if pc.uid == "" && record != nil\<close> keeps that uid, and the pid update is made
  under it. On the stub, the synchronous call with \<open>--pid 200 --uid X\<close> finds record
  \<open>U1\<close> with pid \<open>100\<close>, attaches, and calls \<open>updatePreparationPid\<close> for \<open>X\<close>: the
  record that was found keeps pid \<open>100\<close>.
\<close>

theorem pid_of_found_record_not_corrected_counterexample:
  "QueryRunningPreByTypeAndProcess stub
      (emit (CallCheckFlagValues ''tomcat'' ''200'') world1) ''jvm'' ''tomcat'' ''200''
     = Inr (Some rec0)
   \<and> Uid rec0 = ''U1'' \<and> Pid rec0 = ''100''
   \<and> fst (CheckFlagValues stub world1 ''tomcat'' ''200'') = ''200''
   \<and> fst (prepareJvm stub (cmd0\<lparr>processId := ''200'', uid := ''X''\<rparr>) world1) = None
   \<and> events_since world1
        (snd (snd (prepareJvm stub (cmd0\<lparr>processId := ''200'', uid := ''X''\<rparr>) world1)))
       = [CallCheckFlagValues ''tomcat'' ''200'',
          CallQueryRunningPre ''jvm'' ''tomcat'' ''200'',
          CallAttach ''34000'' '''' ''200'',
          CallUpdatePreparationPid ''X'' ''200'',
          CallHandlePrepareResponse ''X'' (ReturnSuccess ''success''),
          Println (ReturnSuccess ''X'')]
   \<and> store (snd (snd (prepareJvm stub (cmd0\<lparr>processId := ''200'', uid := ''X''\<rparr>) world1)))
       = [rec0]"
  by (simp add: run_simps stub_simps)

text \<open>
  Claim C10, as amended. The call passes no port and goes on to the attach step with a
  record that was found (\<open>nohup\<close> is set, or the call is synchronous and the record is
  \<open>Running\<close>). Then the command is left with the value that \<open>Atoi\<close> returns for the
  port of the record, whatever error comes with it, and the next thing the run does
  after the query is the call of \<open>Attach\<close> with that value: nothing is returned or
  logged in between. The value is 0, and the attach goes to port \<open>0\<close>, whenever
  \<open>Atoi\<close> reports a syntax error; and it does so for every stored port that is not an
  optional sign followed by decimal digits and is shorter than 20 bytes.
\<close>

theorem atoi_error_is_discarded:
  assumes target: "processName pc \<noteq> '''' \<or> processId pc \<noteq> ''''"
    and flags: "CheckFlagValues E w (processName pc) (processId pc) = (pid, resp)"
    and ok: "Success resp"
    and query: "QueryRunningPreByTypeAndProcess E
                  (emit (CallCheckFlagValues (processName pc) (processId pc)) w)
                  (PrepareJvmType E) (processName pc) pid = Inr (Some r)"
    and noport: "port pc = 0"
    and path: "nohup pc \<or> (\<not> async pc \<and> Status r = ''Running'')"
  shows "port (fst (snd (prepareJvm E pc w))) = fst (Atoi (Port r))
    \<and> take 3 (events_since w (snd (snd (prepareJvm E pc w))))
        = [CallCheckFlagValues (processName pc) (processId pc),
           CallQueryRunningPre (PrepareJvmType E) (processName pc) pid,
           CallAttach (Itoa (fst (Atoi (Port r)))) (javaHome pc) pid]
    \<and> (snd (Atoi (Port r)) = Some ErrSyntax \<longrightarrow>
          port (fst (snd (prepareJvm E pc w))) = 0
          \<and> take 3 (events_since w (snd (snd (prepareJvm E pc w))))
              = [CallCheckFlagValues (processName pc) (processId pc),
                 CallQueryRunningPre (PrepareJvmType E) (processName pc) pid,
                 CallAttach ''0'' (javaHome pc) pid])
    \<and> (\<not> decimalSyntax (Port r) \<and> length (Port r) < 20 \<longrightarrow>
          Atoi (Port r) = (0, Some ErrSyntax))"
proof -
  let ?pc1 = "pc\<lparr>processId := pid\<rparr>"
  let ?w2 = "emit (CallQueryRunningPre (PrepareJvmType E) (processName pc) pid)
               (emit (CallCheckFlagValues (processName pc) (processId pc)) w)"
  let ?pc2 = "adoptRecord ?pc1 (Some r)"
  have run: "prepareJvm E pc w = attachAndReport E ?pc1 (Some r) ?w2"
    using prepareJvm_reuse [OF target flags ok query] path noport by blast
  have p2: "port ?pc2 = fst (Atoi (Port r))" "javaHome ?pc2 = javaHome pc" "processId ?pc2 = pid"
    using noport by (simp_all add: adoptRecord_fields)
  have pc': "fst (snd (attachAndReport E ?pc1 (Some r) ?w2)) = ?pc2"
    by (simp add: attachAndReport_def Let_def split: prod.splits)
  obtain rest where ev: "events_since ?w2 (snd (snd (attachAndReport E ?pc1 (Some r) ?w2)))
      = CallAttach (Itoa (port ?pc2)) (javaHome ?pc2) (processId ?pc2) # rest"
    using attachAndReport_events [OF refl, of ?w2 E ?pc1 "Some r"] by auto
  have sp: "events_since w (snd (snd (attachAndReport E ?pc1 (Some r) ?w2)))
          = CallCheckFlagValues (processName pc) (processId pc)
            # CallQueryRunningPre (PrepareJvmType E) (processName pc) pid
            # events_since ?w2 (snd (snd (attachAndReport E ?pc1 (Some r) ?w2)))"
    by (rule events_since_after2 [OF attachAndReport_adds])
  have 1: "port (fst (snd (prepareJvm E pc w))) = fst (Atoi (Port r))"
    unfolding run pc' by (rule p2(1))
  have 2: "take 3 (events_since w (snd (snd (prepareJvm E pc w))))
        = [CallCheckFlagValues (processName pc) (processId pc),
           CallQueryRunningPre (PrepareJvmType E) (processName pc) pid,
           CallAttach (Itoa (fst (Atoi (Port r)))) (javaHome pc) pid]"
    unfolding run sp ev p2 by simp
  have 3: "fst (Atoi (Port r)) = 0" if "snd (Atoi (Port r)) = Some ErrSyntax"
    using that by (rule Atoi_syntax_zero)
  have 4: "Atoi (Port r) = (0, Some ErrSyntax)" if "\<not> decimalSyntax (Port r)" "length (Port r) < 20"
    using that by (rule Atoi_syntax_short)
  show ?thesis using 1 2 3 4 by (simp add: Itoa_0)
qed

text \<open>On the stub: the record of \<open>tomcat\<close> carries the port \<open>auto\<close>.\<close>

theorem atoi_error_is_discarded_witness:
  "\<not> decimalSyntax ''auto''
   \<and> Atoi ''auto'' = (0, Some ErrSyntax)
   \<and> port (fst (snd (prepareJvm stub cmd0 (world1\<lparr>store := [rec0\<lparr>Port := ''auto''\<rparr>]\<rparr>)))) = 0
   \<and> take 3 (events_since (world1\<lparr>store := [rec0\<lparr>Port := ''auto''\<rparr>]\<rparr>)
               (snd (snd (prepareJvm stub cmd0 (world1\<lparr>store := [rec0\<lparr>Port := ''auto''\<rparr>]\<rparr>)))))
       = [CallCheckFlagValues ''tomcat'' '''', CallQueryRunningPre ''jvm'' ''tomcat'' ''100'',
          CallAttach ''0'' '''' ''100'']"
proof -
  let ?w = "world1\<lparr>store := [rec0\<lparr>Port := ''auto''\<rparr>]\<rparr>"
  let ?r = "rec0\<lparr>Port := ''auto''\<rparr>"
  have t: "processName cmd0 \<noteq> '''' \<or> processId cmd0 \<noteq> ''''" by (simp add: cmd0_def)
  have f: "CheckFlagValues stub ?w (processName cmd0) (processId cmd0)
             = (''100'', ReturnSuccess ''success'')"
    by (simp add: stub_flags cmd0_def)
  have q: "QueryRunningPreByTypeAndProcess stub
             (emit (CallCheckFlagValues (processName cmd0) (processId cmd0)) ?w)
             (PrepareJvmType stub) (processName cmd0) ''100'' = Inr (Some ?r)"
    by (simp add: stub_def cmd0_def rec0_def)
  have n: "port cmd0 = 0" by (simp add: cmd0_def)
  have p: "nohup cmd0 \<or> (\<not> async cmd0 \<and> Status ?r = ''Running'')"
    by (simp add: cmd0_def rec0_def)
  have b: "\<not> decimalSyntax ''auto''" "length ''auto'' < 20" "Port ?r = ''auto''"
    by (simp_all add: decimalSyntax_def unsignedPart_def is_digit_def)
  note disc = atoi_error_is_discarded [OF t f Success_ReturnSuccess q n p, unfolded b(3)]
  have a: "Atoi ''auto'' = (0, Some ErrSyntax)" using disc b by blast
  then have "snd (Atoi ''auto'') = Some ErrSyntax" by simp
  then have c: "port (fst (snd (prepareJvm stub cmd0 ?w))) = 0
     \<and> take 3 (events_since ?w (snd (snd (prepareJvm stub cmd0 ?w))))
       = [CallCheckFlagValues (processName cmd0) (processId cmd0),
          CallQueryRunningPre (PrepareJvmType stub) (processName cmd0) ''100'',
          CallAttach ''0'' (javaHome cmd0) ''100'']"
    using disc by blast
  from a b(1) c show ?thesis by (simp add: stub_type cmd0_def)
qed

text \<open>
  Claim C10 as it is stated does not hold for every stored port that is not a decimal
  integer: \<^verbatim>\<open>ParseUint\<close> stops at the first digit that overflows 64 bits, before it
  reads a later byte that is not a digit, and \<^verbatim>\<open>pc.port, _ = strconv.Atoi(record.Port)\<close>
  keeps the bound that comes with the range error. On the stub, with the stored port
  twenty nines and an \<open>x\<close>, the attach goes to port \<open>9223372036854775807\<close>.
\<close>

theorem overflowing_port_is_not_attached_as_zero_counterexample:
  "\<not> decimalSyntax ''99999999999999999999x''
   \<and> Atoi ''99999999999999999999x'' = (9223372036854775807, Some ErrRange)
   \<and> QueryRunningPreByTypeAndProcess stub
        (emit (CallCheckFlagValues ''tomcat'' '''')
           (world1\<lparr>store := [rec0\<lparr>Port := ''99999999999999999999x''\<rparr>]\<rparr>))
        ''jvm'' ''tomcat'' ''100''
       = Inr (Some (rec0\<lparr>Port := ''99999999999999999999x''\<rparr>))
   \<and> port cmd0 = 0
   \<and> port (fst (snd (prepareJvm stub cmd0
              (world1\<lparr>store := [rec0\<lparr>Port := ''99999999999999999999x''\<rparr>]\<rparr>))))
       = 9223372036854775807
   \<and> take 3 (events_since (world1\<lparr>store := [rec0\<lparr>Port := ''99999999999999999999x''\<rparr>]\<rparr>)
               (snd (snd (prepareJvm stub cmd0
                  (world1\<lparr>store := [rec0\<lparr>Port := ''99999999999999999999x''\<rparr>]\<rparr>)))))
       = [CallCheckFlagValues ''tomcat'' '''', CallQueryRunningPre ''jvm'' ''tomcat'' ''100'',
          CallAttach ''9223372036854775807'' '''' ''100'']"
  by (simp add: run_simps stub_simps)

section \<open>The result reporter\<close>

text \<open>
  Claim C9. Whatever the endpoint and whatever the collaborators answer, a run with
  an endpoint returns the same error, prints the same responses and leaves the same
  store as the same run with no endpoint. \<open>reportAttachedResult\<close> itself returns
  nothing, leaves the store alone and prints nothing; when the body cannot be built,
  when \<open>PostCurl\<close> returns an error, and when it returns a code other than 200, the
  last thing it does is to log a warning.
\<close>

theorem reporting_is_best_effort:
  "fst (prepareJvm E (pc\<lparr>endpoint := e\<rparr>) w) = fst (prepareJvm E (pc\<lparr>endpoint := ''''\<rparr>) w)
   \<and> filter isPrintln (trace (snd (snd (prepareJvm E (pc\<lparr>endpoint := e\<rparr>) w))))
       = filter isPrintln (trace (snd (snd (prepareJvm E (pc\<lparr>endpoint := ''''\<rparr>) w))))
   \<and> store (snd (snd (prepareJvm E (pc\<lparr>endpoint := e\<rparr>) w)))
       = store (snd (snd (prepareJvm E (pc\<lparr>endpoint := ''''\<rparr>) w)))
   \<and> store (reportAttachedResult E pc response w) = store w
   \<and> filter isPrintln (trace (reportAttachedResult E pc response w)) = filter isPrintln (trace w)
   \<and> (\<forall>err w2.
        createPostBody E (uid pc)
          (emit (Infof ''report response: %s to endpoint: %s'' [R response, S (endpoint pc)]) w)
          = (Inl err, w2)
        \<longrightarrow> reportAttachedResult E pc response w
            = emit (Warningf ''create java install post body %s failed, %v'' [R response, S err]) w2)
   \<and> (\<forall>body w2 result err code.
        createPostBody E (uid pc)
          (emit (Infof ''report response: %s to endpoint: %s'' [R response, S (endpoint pc)]) w)
          = (Inr body, w2)
        \<and> PostCurl E w2 (endpoint pc) body ''application/json'' = (result, Some err, code)
        \<longrightarrow> reportAttachedResult E pc response w
            = emit (Warningf ''report java install result %s failed, %v'' [R response, S err])
                (emit (CallPostCurl (endpoint pc) body ''application/json'') w2))
   \<and> (\<forall>body w2 result code.
        createPostBody E (uid pc)
          (emit (Infof ''report response: %s to endpoint: %s'' [R response, S (endpoint pc)]) w)
          = (Inr body, w2)
        \<and> PostCurl E w2 (endpoint pc) body ''application/json'' = (result, None, code)
        \<and> code \<noteq> 200
        \<longrightarrow> reportAttachedResult E pc response w
            = emit (Warningf ''response code is %d, result %s'' [I code, S result])
                (emit (CallPostCurl (endpoint pc) body ''application/json'') w2))"
proof -
  have "(case prepareJvm E (pc\<lparr>endpoint := e\<rparr>) w of (r, q, w') \<Rightarrow> outcome (r, w'))
          = (case prepareJvm E (pc\<lparr>endpoint := ''''\<rparr>) w of (r, q, w') \<Rightarrow> outcome (r, w'))"
    using prepareJvm_endpoint [where E = E and pc = pc and e = e and w = w]
      prepareJvm_endpoint [where E = E and pc = pc and e = "''''" and w = w]
    by simp
  then have 1: "fst (prepareJvm E (pc\<lparr>endpoint := e\<rparr>) w) = fst (prepareJvm E (pc\<lparr>endpoint := ''''\<rparr>) w)
   \<and> filter isPrintln (trace (snd (snd (prepareJvm E (pc\<lparr>endpoint := e\<rparr>) w))))
       = filter isPrintln (trace (snd (snd (prepareJvm E (pc\<lparr>endpoint := ''''\<rparr>) w))))
   \<and> store (snd (snd (prepareJvm E (pc\<lparr>endpoint := e\<rparr>) w)))
       = store (snd (snd (prepareJvm E (pc\<lparr>endpoint := ''''\<rparr>) w)))"
    by (simp add: outcome_def split: prod.splits)
  have 2: "store (reportAttachedResult E pc response w) = store w"
    by (rule reportAttachedResult_store)
  have 3: "filter isPrintln (trace (reportAttachedResult E pc response w)) = filter isPrintln (trace w)"
    by (rule report_println)
  have 4: "\<forall>err w2.
        createPostBody E (uid pc)
          (emit (Infof ''report response: %s to endpoint: %s'' [R response, S (endpoint pc)]) w)
          = (Inl err, w2)
        \<longrightarrow> reportAttachedResult E pc response w
            = emit (Warningf ''create java install post body %s failed, %v'' [R response, S err]) w2"
    by (simp add: reportAttachedResult_def Let_def)
  have 5: "\<forall>body w2 result err code.
        createPostBody E (uid pc)
          (emit (Infof ''report response: %s to endpoint: %s'' [R response, S (endpoint pc)]) w)
          = (Inr body, w2)
        \<and> PostCurl E w2 (endpoint pc) body ''application/json'' = (result, Some err, code)
        \<longrightarrow> reportAttachedResult E pc response w
            = emit (Warningf ''report java install result %s failed, %v'' [R response, S err])
                (emit (CallPostCurl (endpoint pc) body ''application/json'') w2)"
    by (simp add: reportAttachedResult_def Let_def)
  have 6: "\<forall>body w2 result code.
        createPostBody E (uid pc)
          (emit (Infof ''report response: %s to endpoint: %s'' [R response, S (endpoint pc)]) w)
          = (Inr body, w2)
        \<and> PostCurl E w2 (endpoint pc) body ''application/json'' = (result, None, code)
        \<and> code \<noteq> 200
        \<longrightarrow> reportAttachedResult E pc response w
            = emit (Warningf ''response code is %d, result %s'' [I code, S result])
                (emit (CallPostCurl (endpoint pc) body ''application/json'') w2)"
    by (simp add: reportAttachedResult_def Let_def)
  from 1 2 3 4 5 6 show ?thesis by blast
qed

text \<open>
  On the stub: the re-invocation for record \<open>U1\<close> with an endpoint that answers with
  HTTP 500.
\<close>

theorem reporting_is_best_effort_witness:
  "fst (prepareJvm stub
          (cmd0\<lparr>uid := ''U1'', nohup := True, port := 34000, processId := ''100'', async := True,
                 endpoint := ''http://collector/report''\<rparr>) world1) = None
   \<and> filter isPrintln (trace (snd (snd (prepareJvm stub
          (cmd0\<lparr>uid := ''U1'', nohup := True, port := 34000, processId := ''100'', async := True,
                 endpoint := ''http://collector/report''\<rparr>) world1))))
       = [Println (ReturnSuccess ''U1'')]
   \<and> reportAttachedResult stub
          (cmd0\<lparr>uid := ''U1'', nohup := True, port := 34000, processId := ''100'', async := True,
                 endpoint := ''http://collector/report''\<rparr>) (ReturnSuccess ''U1'') world1
       = \<lparr>store = [rec0],
          trace = [Infof ''report response: %s to endpoint: %s''
                     [R (ReturnSuccess ''U1''), S ''http://collector/report''],
                   CallQueryPreparationByUid ''U1'',
                   Infof ''body: %s'' [S ''{}''],
                   CallPostCurl ''http://collector/report'' ''{}'' ''application/json'',
                   Warningf ''response code is %d, result %s'' [I 500, S ''internal error'']]\<rparr>"
proof -
  let ?c = "cmd0\<lparr>uid := ''U1'', nohup := True, port := 34000, processId := ''100'', async := True\<rparr>"
  let ?e = "''http://collector/report''"
  let ?w1 = "emit (Infof ''report response: %s to endpoint: %s''
                     [R (ReturnSuccess ''U1''), S (endpoint (?c\<lparr>endpoint := ?e\<rparr>))]) world1"
  let ?w2 = "emit (Infof ''body: %s'' [S ''{}'']) (emit (CallQueryPreparationByUid ''U1'') ?w1)"
  note best = reporting_is_best_effort
    [where E = stub and pc = "?c\<lparr>endpoint := ?e\<rparr>" and e = ?e and w = world1
       and response = "ReturnSuccess ''U1''"]
  have base: "fst (prepareJvm stub (?c\<lparr>endpoint := ''''\<rparr>) world1) = None"
    "filter isPrintln (trace (snd (snd (prepareJvm stub (?c\<lparr>endpoint := ''''\<rparr>) world1))))
       = [Println (ReturnSuccess ''U1'')]"
    by (simp_all add: run_simps stub_simps)
  have body: "createPostBody stub (uid (?c\<lparr>endpoint := ?e\<rparr>)) ?w1 = (Inr ''{}'', ?w2)"
    by (simp add: createPostBody_def stub_def)
  have post: "PostCurl stub ?w2 (endpoint (?c\<lparr>endpoint := ?e\<rparr>)) ''{}'' ''application/json''
                = (''internal error'', None, 500)"
    by (simp add: stub_def)
  have code: "(500::int) \<noteq> 200" by simp
  have 1: "fst (prepareJvm stub (?c\<lparr>endpoint := ?e\<rparr>) world1) = None"
    using best base(1) by simp
  have 2: "filter isPrintln (trace (snd (snd (prepareJvm stub (?c\<lparr>endpoint := ?e\<rparr>) world1))))
       = [Println (ReturnSuccess ''U1'')]"
    using best base(2) by simp
  have "reportAttachedResult stub (?c\<lparr>endpoint := ?e\<rparr>) (ReturnSuccess ''U1'') world1
          = emit (Warningf ''response code is %d, result %s'' [I 500, S ''internal error''])
              (emit (CallPostCurl (endpoint (?c\<lparr>endpoint := ?e\<rparr>)) ''{}'' ''application/json'') ?w2)"
    using best body post code by blast
  then have 3: "reportAttachedResult stub (?c\<lparr>endpoint := ?e\<rparr>) (ReturnSuccess ''U1'') world1
       = \<lparr>store = [rec0],
          trace = [Infof ''report response: %s to endpoint: %s''
                     [R (ReturnSuccess ''U1''), S ''http://collector/report''],
                   CallQueryPreparationByUid ''U1'',
                   Infof ''body: %s'' [S ''{}''],
                   CallPostCurl ''http://collector/report'' ''{}'' ''application/json'',
                   Warningf ''response code is %d, result %s'' [I 500, S ''internal error'']]\<rparr>"
    by (simp add: emit_def world1_def)
  from 1 2 3 show ?thesis by simp
qed

end
